theory Spec2Isabelle
  imports Main "HOL-Library.Word" "HOL-Library.AList"
begin

unbundle bit_operations_syntax

section \<open>Link addresses, IP addresses and prefixes\<close>

type_synonym byte = "8 word"

text \<open>\<^verbatim>\<open>type MAC [6]byte\<close>: a fixed array of six octets.\<close>

datatype MAC = MAC byte byte byte byte byte byte

definition IsBroadcast :: "MAC \<Rightarrow> bool" where
  "IsBroadcast m = (m = MAC 0xff 0xff 0xff 0xff 0xff 0xff)"

fun HWAddr :: "MAC \<Rightarrow> byte list" where
  "HWAddr (MAC a b c d e f) = [a, b, c, d, e, f]"

fun macLowByte :: "MAC \<Rightarrow> byte" where
  "macLowByte (MAC a b c d e f) = f"

text \<open>
  Go's conversion \<^verbatim>\<open>MAC(s)\<close> of a slice to the array type: it panics (\<open>None\<close>) when the
  slice is shorter than the array and otherwise takes the first six octets.
\<close>

fun MAC_of_slice :: "byte list \<Rightarrow> MAC option" where
  "MAC_of_slice (a # b # c # d # e # f # _) = Some (MAC a b c d e f)"
| "MAC_of_slice _ = None"

definition macOf :: "byte list \<Rightarrow> MAC option" where
  "macOf hwa = (if length hwa \<noteq> 6 then None else MAC_of_slice hwa)"

text \<open>
  \<^verbatim>\<open>netip.Addr\<close>: the zero value (invalid), an IPv4 address, or an IPv6 address given by
  its sixteen octets (zones are not modelled).
\<close>

datatype Addr = AddrZero | Addr4 byte byte byte byte | Addr6 "byte list"

definition Addr_IsValid :: "Addr \<Rightarrow> bool" where
  "Addr_IsValid a = (a \<noteq> AddrZero)"

definition Is4In6 :: "Addr \<Rightarrow> bool" where
  "Is4In6 a = (case a of Addr6 bs \<Rightarrow> length bs = 16 \<and> take 12 bs = [0,0,0,0,0,0,0,0,0,0,0xff,0xff]
                | _ \<Rightarrow> False)"

text \<open>\<^verbatim>\<open>Addr.As4\<close> panics (\<open>None\<close>) on the zero address and on a proper IPv6 address.\<close>

definition As4 :: "Addr \<Rightarrow> (byte \<times> byte \<times> byte \<times> byte) option" where
  "As4 a = (case a of
      AddrZero \<Rightarrow> None
    | Addr4 b0 b1 b2 b3 \<Rightarrow> Some (b0, b1, b2, b3)
    | Addr6 bs \<Rightarrow> (if Is4In6 a then Some (bs ! 12, bs ! 13, bs ! 14, bs ! 15) else None))"

definition AsSlice :: "Addr \<Rightarrow> byte list" where
  "AsSlice a = (case a of AddrZero \<Rightarrow> [] | Addr4 b0 b1 b2 b3 \<Rightarrow> [b0, b1, b2, b3] | Addr6 bs \<Rightarrow> bs)"

definition AddrFromSlice :: "byte list \<Rightarrow> Addr \<times> bool" where
  "AddrFromSlice bs = (case bs of
      [b0, b1, b2, b3] \<Rightarrow> (Addr4 b0 b1 b2 b3, True)
    | _ \<Rightarrow> (if length bs = 16 then (Addr6 bs, True) else (AddrZero, False)))"

text \<open>\<^verbatim>\<open>net.IP.To4\<close>: the four-octet form of an IPv4 address, \<open>[]\<close> (nil) otherwise.\<close>

definition To4 :: "byte list \<Rightarrow> byte list" where
  "To4 ip = (if length ip = 4 then ip
             else if length ip = 16 \<and> take 12 ip = [0,0,0,0,0,0,0,0,0,0,0xff,0xff] then drop 12 ip
             else [])"

definition IPv4Unspecified :: Addr where
  "IPv4Unspecified = Addr4 0 0 0 0"

datatype AddrPort = AddrPortFrom (ap_Addr: Addr) (ap_Port: "16 word")

text \<open>
  \<^verbatim>\<open>netip.Prefix\<close> keeps the address and the prefix length plus one; the zero value (length
  field 0) is the invalid prefix.
\<close>

datatype Prefix = Prefix (pfx_Addr: Addr) (pfx_bitsPlusOne: nat)

definition Prefix_IsValid :: "Prefix \<Rightarrow> bool" where
  "Prefix_IsValid p = (pfx_bitsPlusOne p > 0)"

definition Prefix_Bits :: "Prefix \<Rightarrow> int" where
  "Prefix_Bits p = int (pfx_bitsPlusOne p) - 1"

definition be_word :: "byte list \<Rightarrow> 128 word" where
  "be_word bs = foldl (\<lambda>w b. push_bit 8 w OR ucast b) 0 bs"

definition BitLen :: "Addr \<Rightarrow> nat" where
  "BitLen a = (case a of AddrZero \<Rightarrow> 0 | Addr4 _ _ _ _ \<Rightarrow> 32 | Addr6 _ \<Rightarrow> 128)"

text \<open>
  \<^verbatim>\<open>Prefix.Contains\<close>: both addresses of the same family and equal on the first
  \<open>Bits\<close> bits.
\<close>

definition Prefix_Contains :: "Prefix \<Rightarrow> Addr \<Rightarrow> bool" where
  "Prefix_Contains p a =
     (Prefix_IsValid p \<and> BitLen a \<noteq> 0 \<and> BitLen (pfx_Addr p) = BitLen a \<and>
      drop_bit (BitLen a - nat (Prefix_Bits p)) (be_word (AsSlice a) XOR be_word (AsSlice (pfx_Addr p))) = 0)"

text \<open>\<^verbatim>\<open>net.CIDRMask(ones, bits)\<close>; nil is \<open>[]\<close>.\<close>

fun maskBytes :: "nat \<Rightarrow> nat \<Rightarrow> byte list" where
  "maskBytes 0 n = []"
| "maskBytes (Suc l) n =
     (if n \<ge> 8 then 0xff # maskBytes l (n - 8) else NOT (drop_bit n 0xff) # maskBytes l 0)"

definition CIDRMask :: "int \<Rightarrow> int \<Rightarrow> byte list" where
  "CIDRMask ones bits =
     (if bits \<noteq> 32 \<and> bits \<noteq> 128 then []
      else if ones < 0 \<or> ones > bits then []
      else maskBytes (nat (bits div 8)) (nat ones))"

text \<open>\<^verbatim>\<open>binary.BigEndian.AppendUint32\<close>.\<close>

definition AppendUint32 :: "byte list \<Rightarrow> 32 word \<Rightarrow> byte list" where
  "AppendUint32 bs v = bs @ [ucast (drop_bit 24 v), ucast (drop_bit 16 v), ucast (drop_bit 8 v), ucast v]"

definition fakeDNSIP :: Addr where
  "fakeDNSIP = Addr4 4 11 4 11"

definition fakeControlplaneIP :: Addr where
  "fakeControlplaneIP = Addr4 52 52 0 1"

definition fakeTestAgentIP :: Addr where
  "fakeTestAgentIP = Addr4 52 52 0 2"

definition stunPort :: "16 word" where
  "stunPort = 3478"

section \<open>Link registry\<close>

text \<open>
  \<^verbatim>\<open>network.writeFunc\<close> maps a MAC to the function that writes to that guest. A writer is
  identified by the number of the guest connection whose \<^verbatim>\<open>writePkt\<close> closure it is; the
  map is an association list, whose order stands for the order in which \<^verbatim>\<open>Range\<close> visits
  the entries. Calling a writer with a frame is recorded as a \<open>WriterCall\<close>.
\<close>

type_synonym writer = nat

type_synonym registry = "(MAC \<times> writer) list"

definition registerWriter :: "registry \<Rightarrow> MAC \<Rightarrow> writer option \<Rightarrow> registry" where
  "registerWriter reg mac f = (case f of Some w \<Rightarrow> AList.update mac w reg | None \<Rightarrow> AList.delete mac reg)"

datatype effect =
    WriterCall MAC writer "byte list"
  | NATOutAndRoute AddrPort AddrPort "byte list"
  | InjectInbound "byte list"

text \<open>\<^verbatim>\<open>MAC(res[i:i+6])\<close> for a slice known to be long enough.\<close>

definition sliceMAC :: "byte list \<Rightarrow> nat \<Rightarrow> MAC" where
  "sliceMAC res i = MAC (res ! i) (res ! (i + 1)) (res ! (i + 2)) (res ! (i + 3)) (res ! (i + 4)) (res ! (i + 5))"

definition writeEth :: "registry \<Rightarrow> byte list \<Rightarrow> effect list" where
  "writeEth writeFunc res =
     (if length res < 12 then []
      else let dstMAC = sliceMAC res 0; srcMAC = sliceMAC res 6 in
        if IsBroadcast dstMAC then map (\<lambda>(mac, w). WriterCall mac w res) writeFunc
        else if srcMAC = dstMAC then []
        else (case map_of writeFunc dstMAC of
                Some w \<Rightarrow> [WriterCall dstMAC w res]
              | None \<Rightarrow> []))"

section \<open>Decoded packets\<close>

text \<open>
  The layers that the packet decoder hands to the router, with the fields the router
  reads or writes. A packet is the raw frame together with the layers decoded from it;
  a layer that is absent is \<open>None\<close>.
\<close>

record Ethernet =
  eth_SrcMAC :: "byte list"
  eth_DstMAC :: "byte list"
  eth_EthernetType :: "16 word"

definition EthernetTypeLLC :: "16 word" where "EthernetTypeLLC = 0"
definition EthernetTypeIPv4 :: "16 word" where "EthernetTypeIPv4 = 0x0800"
definition EthernetTypeARP :: "16 word" where "EthernetTypeARP = 0x0806"
definition EthernetTypeIPv6 :: "16 word" where "EthernetTypeIPv6 = 0x86DD"

record ARP =
  arp_AddrType :: "16 word"
  arp_Protocol :: "16 word"
  arp_HwAddressSize :: byte
  arp_ProtAddressSize :: byte
  arp_Operation :: "16 word"
  arp_SourceHwAddress :: "byte list"
  arp_SourceProtAddress :: "byte list"
  arp_DstHwAddress :: "byte list"
  arp_DstProtAddress :: "byte list"

definition LinkTypeEthernet :: "16 word" where "LinkTypeEthernet = 1"
definition ARPRequest :: "16 word" where "ARPRequest = 1"
definition ARPReply :: "16 word" where "ARPReply = 2"

record IPv4 =
  ip_Version :: byte
  ip_TTL :: byte
  ip_Protocol :: byte
  ip_SrcIP :: "byte list"
  ip_DstIP :: "byte list"
  ip_Contents :: "byte list"
  ip_Payload :: "byte list"

definition IPProtocolUDP :: byte where "IPProtocolUDP = 17"

record UDP =
  udp_SrcPort :: "16 word"
  udp_DstPort :: "16 word"
  udp_Payload :: "byte list"

record TCP =
  tcp_SrcPort :: "16 word"
  tcp_DstPort :: "16 word"

record DHCPOption =
  opt_Type :: byte
  opt_Length :: byte
  opt_Data :: "byte list"

record DHCPv4 =
  dhcp_Operation :: byte
  dhcp_HardwareType :: "16 word"
  dhcp_HardwareLen :: byte
  dhcp_Xid :: "32 word"
  dhcp_ClientHWAddr :: "byte list"
  dhcp_Flags :: "16 word"
  dhcp_YourClientIP :: "byte list"
  dhcp_Options :: "DHCPOption list"

definition DHCPOpReply :: byte where "DHCPOpReply = 2"
definition DHCPOptSubnetMask :: byte where "DHCPOptSubnetMask = 1"
definition DHCPOptRouter :: byte where "DHCPOptRouter = 3"
definition DHCPOptDNS :: byte where "DHCPOptDNS = 6"
definition DHCPOptLeaseTime :: byte where "DHCPOptLeaseTime = 51"
definition DHCPOptMessageType :: byte where "DHCPOptMessageType = 53"
definition DHCPOptServerID :: byte where "DHCPOptServerID = 54"
definition DHCPMsgTypeUnspecified :: byte where "DHCPMsgTypeUnspecified = 0"
definition DHCPMsgTypeDiscover :: byte where "DHCPMsgTypeDiscover = 1"
definition DHCPMsgTypeOffer :: byte where "DHCPMsgTypeOffer = 2"
definition DHCPMsgTypeRequest :: byte where "DHCPMsgTypeRequest = 3"
definition DHCPMsgTypeAck :: byte where "DHCPMsgTypeAck = 5"

record DNSQuestion =
  q_Name :: string
  q_Type :: "16 word"
  q_Class :: "16 word"

record DNSResourceRecord =
  rr_Name :: string
  rr_Type :: "16 word"
  rr_Class :: "16 word"
  rr_TTL :: "32 word"
  rr_IP :: "byte list"

record DNS =
  dns_ID :: "16 word"
  dns_QR :: bool
  dns_OpCode :: byte
  dns_AA :: bool
  dns_TC :: bool
  dns_RD :: bool
  dns_RA :: bool
  dns_ResponseCode :: byte
  dns_QDCount :: "16 word"
  dns_ANCount :: "16 word"
  dns_Questions :: "DNSQuestion list"
  dns_Answers :: "DNSResourceRecord list"

definition DNSOpCodeQuery :: byte where "DNSOpCodeQuery = 0"
definition DNSResponseCodeNoErr :: byte where "DNSResponseCodeNoErr = 0"
definition DNSClassIN :: "16 word" where "DNSClassIN = 1"
definition DNSTypeA :: "16 word" where "DNSTypeA = 1"

record Packet =
  pkt_Data :: "byte list"
  pkt_Ethernet :: "Ethernet option"
  pkt_ARP :: "ARP option"
  pkt_IPv4 :: "IPv4 option"
  pkt_UDP :: "UDP option"
  pkt_TCP :: "TCP option"
  pkt_IGMP :: bool
  pkt_DHCPv4 :: "DHCPv4 option"
  pkt_DNS :: "DNS option"

record EthernetPacket =
  ep_le :: Ethernet
  ep_gp :: Packet

text \<open>
  \<^verbatim>\<open>EthernetPacket.SrcMAC\<close> and \<^verbatim>\<open>DstMAC\<close> convert the layer's hardware address to a MAC
  (a panic, \<open>None\<close>, on fewer than six octets).
\<close>

definition SrcMAC :: "EthernetPacket \<Rightarrow> MAC option" where
  "SrcMAC ep = MAC_of_slice (eth_SrcMAC (ep_le ep))"

definition DstMAC :: "EthernetPacket \<Rightarrow> MAC option" where
  "DstMAC ep = MAC_of_slice (eth_DstMAC (ep_le ep))"

text \<open>
  Modelled from the spec: the Ethernet II decoder of the packet library, which is not part
  of the sources. A frame shorter than 14 octets has no link layer; otherwise the
  destination MAC is octets 0-5, the source MAC octets 6-11 and the EtherType octets
  12-13 (a value below 0x0600 is a length, and the type is then LLC).
\<close>

definition decodeEthernet :: "byte list \<Rightarrow> Ethernet option" where
  "decodeEthernet bs =
     (if length bs < 14 then None
      else let t = (push_bit 8 (ucast (bs ! 12)) OR ucast (bs ! 13) :: 16 word) in
        Some \<lparr> eth_SrcMAC = take 6 (drop 6 bs), eth_DstMAC = take 6 bs,
               eth_EthernetType = (if t < 0x0600 then EthernetTypeLLC else t) \<rparr>)"

text \<open>
  The frames the router builds are handed to the packet library as a stack of layers and
  serialized there. The library is outside the sources, so the serializer is a parameter:
  it returns the octets of the frame, or \<open>None\<close> for a serialization error.
\<close>

datatype app_payload = PayloadDHCP DHCPv4 | PayloadDNS DNS | PayloadRaw "byte list"

datatype out_layers = ARPFrame Ethernet ARP | UDPFrame Ethernet IPv4 UDP app_payload

type_synonym serializer = "out_layers \<Rightarrow> byte list option"

record UDPPacket =
  Src :: AddrPort
  Dst :: AddrPort
  Payload :: "byte list"

datatype error =
    ConfigError string
  | DuplicateWAN Addr
  | DuplicateMAC MAC
  | UnknownNATType string
  | NATError string string
  | SerializeError
  | Panic string

section \<open>Runtime nodes, networks and the server\<close>

type_synonym NAT = string

text \<open>
  A node points to its network; the pointer is the index of the network in the server's
  list of networks. \<open>net_natTable\<close> holds the NAT table, whose implementations are outside
  the sources (type \<open>'nt\<close>).
\<close>

record node =
  node_mac :: MAC
  node_net :: nat
  node_lanIP :: Addr

record 'nt network =
  net_mac :: MAC
  net_portmap :: bool
  net_wanIP :: Addr
  net_lanIP :: Prefix
  net_nodesByIP :: "Addr \<rightharpoonup> node"
  net_natStyle :: "NAT option"
  net_natTable :: "'nt option"
  net_writeFunc :: registry

record 'nt Server =
  srv_derpIPs :: "Addr set"
  srv_nodes :: "node list"
  srv_nodeByMAC :: "MAC \<rightharpoonup> node"
  srv_networks :: "'nt network list"
  srv_networkByWAN :: "Addr \<rightharpoonup> nat"

text \<open>Dereferencing a network pointer; \<open>None\<close> is the nil pointer.\<close>

definition net_at :: "'nt Server \<Rightarrow> nat \<Rightarrow> 'nt network option" where
  "net_at s i = (if i < length (srv_networks s) then Some (srv_networks s ! i) else None)"

definition MACOfIP :: "'nt network \<Rightarrow> Addr \<Rightarrow> MAC option" where
  "MACOfIP n ip =
     (if pfx_Addr (net_lanIP n) = ip then Some (net_mac n)
      else case net_nodesByIP n ip of Some nd \<Rightarrow> Some (node_mac nd) | None \<Rightarrow> None)"

definition IPv4ForDNS :: "string \<Rightarrow> Addr option" where
  "IPv4ForDNS qname =
     (if qname = ''dns'' then Some fakeDNSIP
      else if qname = ''test-driver.tailscale'' then Some fakeTestAgentIP
      else if qname = ''controlplane.tailscale.com'' then Some fakeControlplaneIP
      else None)"

section \<open>Replies synthesized by the router\<close>

definition createARPResponse_layers :: "'nt network \<Rightarrow> Packet \<Rightarrow> out_layers option" where
  "createARPResponse_layers n pkt =
     (case pkt_Ethernet pkt of
        None \<Rightarrow> None
      | Some ethLayer \<Rightarrow>
          (case pkt_ARP pkt of
             None \<Rightarrow> None
           | Some arpLayer \<Rightarrow>
               if arp_Operation arpLayer \<noteq> ARPRequest \<or>
                  arp_AddrType arpLayer \<noteq> LinkTypeEthernet \<or>
                  arp_Protocol arpLayer \<noteq> EthernetTypeIPv4 \<or>
                  arp_HwAddressSize arpLayer \<noteq> 6 \<or>
                  arp_ProtAddressSize arpLayer \<noteq> 4 \<or>
                  length (arp_DstProtAddress arpLayer) \<noteq> 4
               then None
               else (case MACOfIP n (fst (AddrFromSlice (arp_DstProtAddress arpLayer))) of
                       None \<Rightarrow> None
                     | Some foundMAC \<Rightarrow>
                         Some (ARPFrame
                           \<lparr> eth_SrcMAC = HWAddr foundMAC, eth_DstMAC = eth_SrcMAC ethLayer,
                             eth_EthernetType = EthernetTypeARP \<rparr>
                           \<lparr> arp_AddrType = LinkTypeEthernet, arp_Protocol = EthernetTypeIPv4,
                             arp_HwAddressSize = 6, arp_ProtAddressSize = 4,
                             arp_Operation = ARPReply,
                             arp_SourceHwAddress = HWAddr foundMAC,
                             arp_SourceProtAddress = arp_DstProtAddress arpLayer,
                             arp_DstHwAddress = eth_SrcMAC ethLayer,
                             arp_DstProtAddress = arp_SourceProtAddress arpLayer \<rparr>))))"

text \<open>
  A reply function returns the octets to write (\<open>[]\<close> for nil: nothing to send), or an
  error; \<open>serialize\<close> runs the serializer on the layers a reply function has built.
\<close>

definition serialize :: "serializer \<Rightarrow> out_layers option \<Rightarrow> error + byte list" where
  "serialize ser ls =
     (case ls of
        None \<Rightarrow> Inr []
      | Some l \<Rightarrow> (case ser l of None \<Rightarrow> Inl SerializeError | Some bs \<Rightarrow> Inr bs))"

definition createARPResponse :: "serializer \<Rightarrow> 'nt network \<Rightarrow> Packet \<Rightarrow> error + byte list" where
  "createARPResponse ser n pkt = serialize ser (createARPResponse_layers n pkt)"

text \<open>
  The loop of \<^verbatim>\<open>createDHCPResponse\<close> over the request's options: the last message-type
  option of positive length gives the message type. Reading \<^verbatim>\<open>opt.Data[0]\<close> of an option
  without data panics (\<open>None\<close>).
\<close>

fun dhcpMsgType :: "byte \<Rightarrow> DHCPOption list \<Rightarrow> byte option" where
  "dhcpMsgType msgType [] = Some msgType"
| "dhcpMsgType msgType (opt # opts) =
     (if opt_Type opt = DHCPOptMessageType \<and> opt_Length opt > 0
      then (case opt_Data opt of [] \<Rightarrow> None | b # _ \<Rightarrow> dhcpMsgType b opts)
      else dhcpMsgType msgType opts)"

definition dhcpReplyOptions :: "byte \<Rightarrow> Addr \<Rightarrow> Prefix \<Rightarrow> DHCPOption list" where
  "dhcpReplyOptions msgType gwIP lanIP =
     [\<lparr> opt_Type = DHCPOptServerID, opt_Length = 4, opt_Data = AsSlice gwIP \<rparr>] @
     (if msgType = DHCPMsgTypeDiscover then
        [\<lparr> opt_Type = DHCPOptMessageType, opt_Length = 1, opt_Data = [DHCPMsgTypeOffer] \<rparr>]
      else if msgType = DHCPMsgTypeRequest then
        [\<lparr> opt_Type = DHCPOptMessageType, opt_Length = 1, opt_Data = [DHCPMsgTypeAck] \<rparr>,
         \<lparr> opt_Type = DHCPOptLeaseTime, opt_Length = 4, opt_Data = AppendUint32 [] 3600 \<rparr>,
         \<lparr> opt_Type = DHCPOptRouter, opt_Length = 4, opt_Data = AsSlice gwIP \<rparr>,
         \<lparr> opt_Type = DHCPOptDNS, opt_Length = 4, opt_Data = AsSlice fakeDNSIP \<rparr>,
         \<lparr> opt_Type = DHCPOptSubnetMask, opt_Length = 4, opt_Data = CIDRMask (Prefix_Bits lanIP) 32 \<rparr>]
      else [])"

definition createDHCPResponse_layers :: "'nt Server \<Rightarrow> Packet \<Rightarrow> error + out_layers option" where
  "createDHCPResponse_layers s request =
     (case pkt_Ethernet request of
        None \<Rightarrow> Inl (Panic ''no Ethernet layer'')
      | Some ethLayer \<Rightarrow>
     (case macOf (eth_SrcMAC ethLayer) of
        None \<Rightarrow> Inr None
      | Some srcMAC \<Rightarrow>
     (case srv_nodeByMAC s srcMAC of
        None \<Rightarrow> Inr None
      | Some nd \<Rightarrow>
     (case net_at s (node_net nd) of
        None \<Rightarrow> Inl (Panic ''nil network'')
      | Some nw \<Rightarrow>
     (case pkt_IPv4 request of
        None \<Rightarrow> Inl (Panic ''no IPv4 layer'')
      | Some ipLayer \<Rightarrow>
     (case pkt_UDP request of
        None \<Rightarrow> Inl (Panic ''no UDP layer'')
      | Some udpLayer \<Rightarrow>
     (case pkt_DHCPv4 request of
        None \<Rightarrow> Inl (Panic ''no DHCPv4 layer'')
      | Some dhcpLayer \<Rightarrow>
     (case dhcpMsgType DHCPMsgTypeUnspecified (dhcp_Options dhcpLayer) of
        None \<Rightarrow> Inl (Panic ''index out of range'')
      | Some msgType \<Rightarrow>
          Inr (Some (UDPFrame
            \<lparr> eth_SrcMAC = HWAddr (net_mac nw), eth_DstMAC = eth_SrcMAC ethLayer,
              eth_EthernetType = EthernetTypeIPv4 \<rparr>
            \<lparr> ip_Version = 4, ip_TTL = 64, ip_Protocol = IPProtocolUDP,
              ip_SrcIP = ip_DstIP ipLayer, ip_DstIP = ip_SrcIP ipLayer,
              ip_Contents = [], ip_Payload = [] \<rparr>
            \<lparr> udp_SrcPort = udp_DstPort udpLayer, udp_DstPort = udp_SrcPort udpLayer,
              udp_Payload = [] \<rparr>
            (PayloadDHCP
              \<lparr> dhcp_Operation = DHCPOpReply, dhcp_HardwareType = LinkTypeEthernet,
                dhcp_HardwareLen = 6, dhcp_Xid = dhcp_Xid dhcpLayer,
                dhcp_ClientHWAddr = dhcp_ClientHWAddr dhcpLayer,
                dhcp_Flags = dhcp_Flags dhcpLayer,
                dhcp_YourClientIP = AsSlice (node_lanIP nd),
                dhcp_Options = dhcpReplyOptions msgType (pfx_Addr (net_lanIP nw)) (net_lanIP nw) \<rparr>)))))))))))"

definition createDHCPResponse :: "serializer \<Rightarrow> 'nt Server \<Rightarrow> Packet \<Rightarrow> error + byte list" where
  "createDHCPResponse ser s request =
     (case createDHCPResponse_layers s request of
        Inl e \<Rightarrow> Inl e
      | Inr ls \<Rightarrow> serialize ser ls)"

text \<open>\<^verbatim>\<open>mem.HasSuffix\<close>.\<close>

definition HasSuffix :: "string \<Rightarrow> string \<Rightarrow> bool" where
  "HasSuffix s suffix = (length s \<ge> length suffix \<and> drop (length s - length suffix) s = suffix)"

text \<open>
  The loop of \<^verbatim>\<open>createDNSResponse\<close> over the questions, with the response built so far;
  \<open>None\<close> is the early \<^verbatim>\<open>return nil, nil\<close> on a name under \<^verbatim>\<open>.pool.ntp.org\<close>.
\<close>

fun dnsQuestions :: "DNS \<Rightarrow> DNSQuestion list \<Rightarrow> DNS option" where
  "dnsQuestions response [] = Some response"
| "dnsQuestions response (q # qs) =
     (let r1 = response\<lparr> dns_QDCount := dns_QDCount response + 1,
                         dns_Questions := dns_Questions response @ [q] \<rparr> in
      if HasSuffix (q_Name q) ''.pool.ntp.org'' then None
      else if q_Class q \<noteq> DNSClassIN \<or> q_Type q \<noteq> DNSTypeA then dnsQuestions r1 qs
      else (case IPv4ForDNS (q_Name q) of
              Some ip \<Rightarrow>
                dnsQuestions
                  (r1\<lparr> dns_ANCount := dns_ANCount r1 + 1,
                       dns_Answers := dns_Answers r1 @
                         [\<lparr> rr_Name = q_Name q, rr_Type = q_Type q, rr_Class = q_Class q,
                            rr_TTL = 60, rr_IP = AsSlice ip \<rparr>] \<rparr>) qs
            | None \<Rightarrow> dnsQuestions r1 qs))"

definition dnsResponseHeader :: "DNS \<Rightarrow> DNS" where
  "dnsResponseHeader dnsLayer =
     \<lparr> dns_ID = dns_ID dnsLayer, dns_QR = True, dns_OpCode = DNSOpCodeQuery, dns_AA = True,
       dns_TC = False, dns_RD = dns_RD dnsLayer, dns_RA = True,
       dns_ResponseCode = DNSResponseCodeNoErr, dns_QDCount = 0, dns_ANCount = 0,
       dns_Questions = [], dns_Answers = [] \<rparr>"

definition createDNSResponse_layers :: "Packet \<Rightarrow> error + out_layers option" where
  "createDNSResponse_layers pkt =
     (case pkt_Ethernet pkt of
        None \<Rightarrow> Inl (Panic ''no Ethernet layer'')
      | Some ethLayer \<Rightarrow>
     (case pkt_IPv4 pkt of
        None \<Rightarrow> Inl (Panic ''no IPv4 layer'')
      | Some ipLayer \<Rightarrow>
     (case pkt_UDP pkt of
        None \<Rightarrow> Inl (Panic ''no UDP layer'')
      | Some udpLayer \<Rightarrow>
     (case pkt_DNS pkt of
        None \<Rightarrow> Inl (Panic ''no DNS layer'')
      | Some dnsLayer \<Rightarrow>
          if dns_OpCode dnsLayer \<noteq> DNSOpCodeQuery \<or> dns_QR dnsLayer \<or> dns_Questions dnsLayer = []
          then Inr None
          else (case dnsQuestions (dnsResponseHeader dnsLayer) (dns_Questions dnsLayer) of
                  None \<Rightarrow> Inr None
                | Some response \<Rightarrow>
                    Inr (Some (UDPFrame
                      \<lparr> eth_SrcMAC = eth_DstMAC ethLayer, eth_DstMAC = eth_SrcMAC ethLayer,
                        eth_EthernetType = EthernetTypeIPv4 \<rparr>
                      \<lparr> ip_Version = 4, ip_TTL = 64, ip_Protocol = IPProtocolUDP,
                        ip_SrcIP = ip_DstIP ipLayer, ip_DstIP = ip_SrcIP ipLayer,
                        ip_Contents = [], ip_Payload = [] \<rparr>
                      \<lparr> udp_SrcPort = udp_DstPort udpLayer, udp_DstPort = udp_SrcPort udpLayer,
                        udp_Payload = [] \<rparr>
                      (PayloadDNS response))))))))"

definition createDNSResponse :: "serializer \<Rightarrow> Packet \<Rightarrow> error + byte list" where
  "createDNSResponse ser pkt =
     (case createDNSResponse_layers pkt of
        Inl e \<Rightarrow> Inl e
      | Inr ls \<Rightarrow> serialize ser ls)"

section \<open>Packet classification\<close>

definition isDHCPRequest :: "Packet \<Rightarrow> bool" where
  "isDHCPRequest pkt =
     (case pkt_IPv4 pkt of
        None \<Rightarrow> False
      | Some v4 \<Rightarrow>
          if ip_Protocol v4 \<noteq> IPProtocolUDP then False
          else (case pkt_UDP pkt of
                  None \<Rightarrow> False
                | Some udp \<Rightarrow> udp_DstPort udp = 67 \<and> udp_SrcPort udp = 68))"

definition isIGMP :: "Packet \<Rightarrow> bool" where
  "isIGMP pkt = pkt_IGMP pkt"

definition isMDNSQuery :: "Packet \<Rightarrow> bool" where
  "isMDNSQuery pkt =
     (case pkt_UDP pkt of None \<Rightarrow> False | Some udp \<Rightarrow> udp_SrcPort udp = 5353 \<and> udp_DstPort udp = 5353)"

definition shouldInterceptTCP :: "'nt Server \<Rightarrow> Packet \<Rightarrow> bool" where
  "shouldInterceptTCP s pkt =
     (case pkt_TCP pkt of
        None \<Rightarrow> False
      | Some tcp \<Rightarrow>
     (case pkt_IPv4 pkt of
        None \<Rightarrow> False
      | Some ipv4 \<Rightarrow>
          if tcp_DstPort tcp = 123 then True
          else let dstIP = fst (AddrFromSlice (To4 (ip_DstIP ipv4))) in
            if (tcp_DstPort tcp = 80 \<or> tcp_DstPort tcp = 443) \<and>
               (dstIP = fakeControlplaneIP \<or> dstIP \<in> srv_derpIPs s) then True
            else if tcp_DstPort tcp = 8008 \<and> dstIP = fakeTestAgentIP then True
            else False))"

definition isDNSRequest :: "Packet \<Rightarrow> bool" where
  "isDNSRequest pkt =
     (case pkt_UDP pkt of
        None \<Rightarrow> False
      | Some udp \<Rightarrow>
          if udp_DstPort udp \<noteq> 53 then False
          else (case pkt_IPv4 pkt of
                  None \<Rightarrow> False
                | Some ip \<Rightarrow>
                    let (dstIP, ok) = AddrFromSlice (ip_DstIP ip) in
                    if \<not> ok \<or> dstIP \<noteq> fakeDNSIP then False
                    else (case pkt_DNS pkt of
                            None \<Rightarrow> False
                          | Some dns \<Rightarrow> dns_QR dns = False \<and> length (dns_Questions dns) > 0)))"

definition isNATPMP :: "Packet \<Rightarrow> bool" where
  "isNATPMP pkt =
     (case pkt_UDP pkt of
        None \<Rightarrow> False
      | Some udp \<Rightarrow>
          udp_DstPort udp = 5351 \<and> length (udp_Payload udp) > 0 \<and> udp_Payload udp ! 0 = 0)"

section \<open>The router of a network\<close>

text \<open>
  \<^verbatim>\<open>WriteUDPPacketNoNAT\<close>: the frame is built for the node that owns the destination
  address; an unknown destination and a serialization error are logged and nothing is
  written.
\<close>

definition WriteUDPPacketNoNAT_layers :: "'nt network \<Rightarrow> UDPPacket \<Rightarrow> out_layers option" where
  "WriteUDPPacketNoNAT_layers n p =
     (case net_nodesByIP n (ap_Addr (Dst p)) of
        None \<Rightarrow> None
      | Some nd \<Rightarrow>
          Some (UDPFrame
            \<lparr> eth_SrcMAC = HWAddr (net_mac n), eth_DstMAC = HWAddr (node_mac nd),
              eth_EthernetType = EthernetTypeIPv4 \<rparr>
            \<lparr> ip_Version = 4, ip_TTL = 64, ip_Protocol = IPProtocolUDP,
              ip_SrcIP = AsSlice (ap_Addr (Src p)), ip_DstIP = AsSlice (ap_Addr (Dst p)),
              ip_Contents = [], ip_Payload = [] \<rparr>
            \<lparr> udp_SrcPort = ap_Port (Src p), udp_DstPort = ap_Port (Dst p), udp_Payload = [] \<rparr>
            (PayloadRaw (Payload p))))"

definition WriteUDPPacketNoNAT :: "serializer \<Rightarrow> 'nt network \<Rightarrow> UDPPacket \<Rightarrow> effect list" where
  "WriteUDPPacketNoNAT ser n p =
     (case WriteUDPPacketNoNAT_layers n p of
        None \<Rightarrow> []
      | Some l \<Rightarrow> (case ser l of None \<Rightarrow> [] | Some ethRaw \<Rightarrow> writeEth (net_writeFunc n) ethRaw))"

text \<open>
  \<^verbatim>\<open>handleNATPMPRequest\<close>; \<open>now\<close> is \<^verbatim>\<open>time.Now().Unix()\<close>, converted to 32 bits. The reply
  is built only for the payload \<^verbatim>\<open>00 00\<close>; \<^verbatim>\<open>As4\<close> of a WAN address that is not IPv4
  panics.
\<close>

definition natpmpReply :: "int \<Rightarrow> byte \<times> byte \<times> byte \<times> byte \<Rightarrow> byte list" where
  "natpmpReply now wan4 =
     (case wan4 of (a, b, c, d) \<Rightarrow> AppendUint32 [0, 128, 0, 0] (word_of_int now) @ [a, b, c, d])"

definition handleNATPMPRequest ::
  "serializer \<Rightarrow> int \<Rightarrow> 'nt network \<Rightarrow> UDPPacket \<Rightarrow> error + effect list" where
  "handleNATPMPRequest ser now n req =
     (if Payload req = [0, 0] then
        (case As4 (net_wanIP n) of
           None \<Rightarrow> Inl (Panic ''As4 called on an address that is not IPv4'')
         | Some wan4 \<Rightarrow>
             Inr (WriteUDPPacketNoNAT ser n
                    \<lparr> Src = Dst req, Dst = Src req, Payload = natpmpReply now wan4 \<rparr>))
      else Inr [])"

text \<open>
  \<^verbatim>\<open>HandleEthernetIPv4PacketForRouter\<close>. Handing a forwarded UDP datagram to the NAT table
  and then to the WAN switch is the effect \<open>NATOutAndRoute src dst payload\<close> (with the LAN
  source, before translation); injecting a datagram into the TCP stack is
  \<open>InjectInbound\<close>. An error of a reply function is logged and nothing is written; a panic
  is returned.
\<close>

definition writeReply :: "'nt network \<Rightarrow> error + byte list \<Rightarrow> error + effect list" where
  "writeReply n r =
     (case r of
        Inl (Panic m) \<Rightarrow> Inl (Panic m)
      | Inl _ \<Rightarrow> Inr []
      | Inr res \<Rightarrow> Inr (writeEth (net_writeFunc n) res))"

definition toForward :: "'nt network \<Rightarrow> Addr \<Rightarrow> bool" where
  "toForward n dstIP = (dstIP \<noteq> pfx_Addr (net_lanIP n) \<and> dstIP \<noteq> IPv4Unspecified)"

definition HandleEthernetIPv4PacketForRouter ::
  "serializer \<Rightarrow> int \<Rightarrow> 'nt Server \<Rightarrow> 'nt network \<Rightarrow> EthernetPacket \<Rightarrow> error + effect list" where
  "HandleEthernetIPv4PacketForRouter ser now s n ep =
     (let packet = ep_gp ep in
      case pkt_IPv4 packet of
        None \<Rightarrow> Inr []
      | Some v4 \<Rightarrow>
          let srcIP = fst (AddrFromSlice (ip_SrcIP v4));
              dstIP = fst (AddrFromSlice (ip_DstIP v4));
              fwd = toForward n dstIP
          in
          if isDHCPRequest packet then writeReply n (createDHCPResponse ser s packet)
          else if isMDNSQuery packet \<or> isIGMP packet then Inr []
          else if isDNSRequest packet then writeReply n (createDNSResponse ser packet)
          else if \<not> fwd \<and> isNATPMP packet then
            (case pkt_UDP packet of
               None \<Rightarrow> Inl (Panic ''nil UDP layer'')
             | Some udp \<Rightarrow>
                 handleNATPMPRequest ser now n
                   \<lparr> Src = AddrPortFrom srcIP (udp_SrcPort udp),
                     Dst = AddrPortFrom dstIP (udp_DstPort udp),
                     Payload = udp_Payload udp \<rparr>)
          else (case pkt_UDP packet of
                  Some udp \<Rightarrow>
                    if fwd then
                      Inr [NATOutAndRoute (AddrPortFrom srcIP (udp_SrcPort udp))
                             (AddrPortFrom dstIP (udp_DstPort udp)) (udp_Payload udp)]
                    else Inr []
                | None \<Rightarrow>
                    if fwd \<and> shouldInterceptTCP s packet
                    then Inr [InjectInbound (ip_Contents v4 @ ip_Payload v4)]
                    else Inr []))"

text \<open>
  \<^verbatim>\<open>HandleEthernetPacket\<close> returns the effects in the order they happen, and the panic that
  ended it, if any. For an IPv4 frame the LAN fan-out (\<open>writeEth\<close> of the frame as received)
  comes first and the router's own handling second.
\<close>

definition HandleEthernetPacket ::
  "serializer \<Rightarrow> int \<Rightarrow> 'nt Server \<Rightarrow> 'nt network \<Rightarrow> EthernetPacket \<Rightarrow> effect list \<times> error option" where
  "HandleEthernetPacket ser now s n ep =
     (case DstMAC ep of
        None \<Rightarrow> ([], Some (Panic ''MAC conversion of a short slice''))
      | Some dstMAC \<Rightarrow>
          let isBroadcast = IsBroadcast dstMAC;
              forRouter = (dstMAC = net_mac n \<or> isBroadcast);
              t = eth_EthernetType (ep_le ep)
          in
          if t = EthernetTypeARP then
            (case createARPResponse ser n (ep_gp ep) of
               Inl _ \<Rightarrow> ([], None)
             | Inr res \<Rightarrow> (writeEth (net_writeFunc n) res, None))
          else if t = EthernetTypeIPv6 then ([], None)
          else if t = EthernetTypeIPv4 then
            (let fanout = writeEth (net_writeFunc n) (pkt_Data (ep_gp ep)) in
             if forRouter then
               (case HandleEthernetIPv4PacketForRouter ser now s n ep of
                  Inl e \<Rightarrow> (fanout, Some e)
                | Inr es \<Rightarrow> (fanout @ es, None))
             else (fanout, None))
          else ([], None))"

section \<open>The WAN switch\<close>

text \<open>
  The STUN codec (\<^verbatim>\<open>stun.ParseBindingRequest\<close>, \<^verbatim>\<open>stun.Response\<close>) is outside the sources
  and taken as a parameter: the parser returns the transaction id of a binding request
  or fails, and \<open>stun_Response txid addr\<close> is the binding success response with mapped
  address \<open>addr\<close>.
\<close>

record 'txid stun_codec =
  stun_ParseBindingRequest :: "byte list \<Rightarrow> 'txid option"
  stun_Response :: "'txid \<Rightarrow> AddrPort \<Rightarrow> byte list"

definition makeSTUNReply :: "'txid stun_codec \<Rightarrow> UDPPacket \<Rightarrow> UDPPacket option" where
  "makeSTUNReply stun req =
     (case stun_ParseBindingRequest stun (Payload req) of
        None \<Rightarrow> None
      | Some txid \<Rightarrow>
          Some \<lparr> Src = Dst req, Dst = Src req, Payload = stun_Response stun txid (Src req) \<rparr>)"

text \<open>
  \<^verbatim>\<open>routeUDPPacket\<close> ends by dropping the packet or by handing it to the
  \<^verbatim>\<open>HandleUDPPacket\<close> of the network that owns the destination WAN address. It calls
  itself on a STUN reply, and nothing in it bounds that recursion, so a call that does
  not return is \<open>None\<close>.
\<close>

datatype route_outcome = Dropped | ToNetwork nat UDPPacket

partial_function (option) routeUDPPacket ::
  "'txid stun_codec \<Rightarrow> 'nt Server \<Rightarrow> UDPPacket \<Rightarrow> route_outcome option" where
  "routeUDPPacket stun s up =
     (if ap_Port (Dst up) = stunPort then
        (case makeSTUNReply stun up of
           Some res \<Rightarrow> routeUDPPacket stun s res
         | None \<Rightarrow> Some Dropped)
      else (case srv_networkByWAN s (ap_Addr (Dst up)) of
              None \<Rightarrow> Some Dropped
            | Some netw \<Rightarrow> Some (ToNetwork netw up)))"

section \<open>Configuration\<close>

text \<open>
  The configuration types \<^verbatim>\<open>Node\<close> and \<^verbatim>\<open>Network\<close>. A pointer to a configured network is
  its index in \<^verbatim>\<open>Config.networks\<close>, a pointer to a configured node its index in
  \<^verbatim>\<open>Config.nodes\<close>. String options are given as the address or prefix they parse to.
\<close>

type_synonym NetworkService = string

record Node =
  Node_err :: "error option"
  Node_mac :: MAC
  Node_nets :: "nat list"

record Network =
  Network_mac :: MAC
  Network_natType :: NAT
  Network_wanIP :: Addr
  Network_lanIP :: Prefix
  Network_nodes :: "nat list"
  Network_svcs :: "NetworkService set"
  Network_err :: "error option"

record Config =
  cfg_nodes :: "Node list"
  cfg_networks :: "Network list"

datatype node_opt = OptNetwork nat | OptUnknownNode string

fun addNodeOpts :: "nat \<Rightarrow> Config \<times> Node \<Rightarrow> node_opt list \<Rightarrow> Config \<times> Node" where
  "addNodeOpts num (c, n) [] = (c, n)"
| "addNodeOpts num (c, n) (OptNetwork k # opts) =
     (let nw = cfg_networks c ! k;
          nw' = (if num \<in> set (Network_nodes nw) then nw
                 else nw\<lparr> Network_nodes := Network_nodes nw @ [num] \<rparr>)
      in addNodeOpts num
           (c\<lparr> cfg_networks := (cfg_networks c)[k := nw'] \<rparr>, n\<lparr> Node_nets := Node_nets n @ [k] \<rparr>) opts)"
| "addNodeOpts num (c, n) (OptUnknownNode ty # opts) =
     addNodeOpts num
       (c, if Node_err n = None then n\<lparr> Node_err := Some (ConfigError ty) \<rparr> else n) opts"

text \<open>\<^verbatim>\<open>Config.AddNode\<close> returns the new configuration and the index of the new node.\<close>

definition AddNode :: "Config \<Rightarrow> node_opt list \<Rightarrow> Config \<times> nat" where
  "AddNode c opts =
     (let num = length (cfg_nodes c);
          n = \<lparr> Node_err = None, Node_mac = MAC 0x52 0xcc 0xcc 0xcc 0xcc (of_nat num), Node_nets = [] \<rparr>;
          (c', n') = addNodeOpts num (c, n) opts
      in (c'\<lparr> cfg_nodes := cfg_nodes c @ [n'] \<rparr>, num))"

datatype network_opt =
    OptWANIP Addr
  | OptLANPrefix Prefix
  | OptBadString string
  | OptNAT NAT
  | OptService NetworkService
  | OptUnknownNetwork string

fun addNetworkOpt :: "Network \<Rightarrow> network_opt \<Rightarrow> Network" where
  "addNetworkOpt n (OptWANIP ip) = n\<lparr> Network_wanIP := ip \<rparr>"
| "addNetworkOpt n (OptLANPrefix ip) = n\<lparr> Network_lanIP := ip \<rparr>"
| "addNetworkOpt n (OptBadString str) =
     (if Network_err n = None then n\<lparr> Network_err := Some (ConfigError str) \<rparr> else n)"
| "addNetworkOpt n (OptNAT t) = n\<lparr> Network_natType := t \<rparr>"
| "addNetworkOpt n (OptService svc) = n\<lparr> Network_svcs := insert svc (Network_svcs n) \<rparr>"
| "addNetworkOpt n (OptUnknownNetwork ty) =
     (if Network_err n = None then n\<lparr> Network_err := Some (ConfigError ty) \<rparr> else n)"

definition AddNetwork :: "Config \<Rightarrow> network_opt list \<Rightarrow> Config \<times> nat" where
  "AddNetwork c opts =
     (let num = length (cfg_networks c);
          n = \<lparr> Network_mac = MAC 0x52 0xee 0xee 0xee 0xee (of_nat num), Network_natType = [],
                Network_wanIP = AddrZero, Network_lanIP = Prefix AddrZero 0, Network_nodes = [],
                Network_svcs = {}, Network_err = None \<rparr>
      in (c\<lparr> cfg_networks := cfg_networks c @ [foldl addNetworkOpt n opts] \<rparr>, num))"

text \<open>\<^verbatim>\<open>Node.Network\<close>: the first network of the node, or nil.\<close>

definition Node_Network :: "Node \<Rightarrow> nat option" where
  "Node_Network n = (case Node_nets n of [] \<Rightarrow> None | k # _ \<Rightarrow> Some k)"

definition NATPMP :: NetworkService where
  "NATPMP = ''NAT-PMP''"

text \<open>
  The NAT implementations are outside the sources: the name of the default NAT type and
  the table of constructors (\<^verbatim>\<open>natTypes\<close>) are parameters. A constructor returns the NAT
  table or an error message.
\<close>

record 'nt nat_types =
  nat_EasyNAT :: NAT
  nat_natTypes :: "NAT \<Rightarrow> ('nt network \<Rightarrow> string + 'nt) option"

definition InitNAT :: "'nt nat_types \<Rightarrow> 'nt network \<Rightarrow> NAT \<Rightarrow> error + 'nt network" where
  "InitNAT nt n natType =
     (case nat_natTypes nt natType of
        None \<Rightarrow> Inl (UnknownNATType natType)
      | Some ctor \<Rightarrow>
          (case ctor n of
             Inl msg \<Rightarrow> Inl (NATError natType msg)
           | Inr t \<Rightarrow> Inr (n\<lparr> net_natTable := Some t, net_natStyle := Some natType \<rparr>)))"

text \<open>
  The three loops of \<^verbatim>\<open>initFromConfig\<close>. \<open>netOfConf\<close> maps the index of a configured network
  to the index of its runtime network.
\<close>

definition defaultLANPrefix :: Prefix where
  "defaultLANPrefix = Prefix (Addr4 192 168 0 0) 25"

fun initNetworks ::
  "'nt Server \<Rightarrow> (nat \<rightharpoonup> nat) \<Rightarrow> nat \<Rightarrow> Network list \<Rightarrow> error + ('nt Server \<times> (nat \<rightharpoonup> nat))" where
  "initNetworks s netOfConf i [] = Inr (s, netOfConf)"
| "initNetworks s netOfConf i (conf # rest) =
     (case Network_err conf of
        Some e \<Rightarrow> Inl e
      | None \<Rightarrow>
          let lanIP = (if \<not> Prefix_IsValid (Network_lanIP conf) then defaultLANPrefix
                       else Network_lanIP conf);
              n = \<lparr> net_mac = Network_mac conf, net_portmap = (NATPMP \<in> Network_svcs conf),
                    net_wanIP = Network_wanIP conf, net_lanIP = lanIP,
                    net_nodesByIP = Map.empty, net_natStyle = None, net_natTable = None,
                    net_writeFunc = [] \<rparr>;
              idx = length (srv_networks s)
          in if srv_networkByWAN s (Network_wanIP conf) \<noteq> None
             then Inl (DuplicateWAN (Network_wanIP conf))
             else initNetworks
                    (s\<lparr> srv_networks := srv_networks s @ [n],
                        srv_networkByWAN := (srv_networkByWAN s)(Network_wanIP conf \<mapsto> idx) \<rparr>)
                    (netOfConf(i \<mapsto> idx)) (Suc i) rest)"

text \<open>
  The node is created with its network pointer, checked for a duplicate MAC and stored;
  then its LAN address is allocated from the address of the network's prefix, with the
  final octet 101 plus the last octet of the MAC (in \<^verbatim>\<open>byte\<close> arithmetic). The node is
  shared by pointer, so the stored node carries the address. A node without network
  (nil pointer) and a prefix address that \<^verbatim>\<open>As4\<close> rejects panic.
\<close>

definition allocLANIP :: "byte \<times> byte \<times> byte \<times> byte \<Rightarrow> MAC \<Rightarrow> Addr" where
  "allocLANIP ip4 mac = (case ip4 of (a, b, c, d) \<Rightarrow> Addr4 a b c (101 + macLowByte mac))"

fun initNodes :: "'nt Server \<Rightarrow> (nat \<rightharpoonup> nat) \<Rightarrow> Node list \<Rightarrow> error + 'nt Server" where
  "initNodes s netOfConf [] = Inr s"
| "initNodes s netOfConf (conf # rest) =
     (case Node_err conf of
        Some e \<Rightarrow> Inl e
      | None \<Rightarrow>
          let netp = (case Node_Network conf of None \<Rightarrow> None | Some ci \<Rightarrow> netOfConf ci);
              mac = Node_mac conf
          in if srv_nodeByMAC s mac \<noteq> None then Inl (DuplicateMAC mac)
             else (case netp of
                     None \<Rightarrow> Inl (Panic ''nil network'')
                   | Some ni \<Rightarrow>
                  (case net_at s ni of
                     None \<Rightarrow> Inl (Panic ''nil network'')
                   | Some nw \<Rightarrow>
                  (case As4 (pfx_Addr (net_lanIP nw)) of
                     None \<Rightarrow> Inl (Panic ''As4 called on an address that is not IPv4'')
                   | Some ip4 \<Rightarrow>
                       let n = \<lparr> node_mac = mac, node_net = ni, node_lanIP = allocLANIP ip4 mac \<rparr>
                       in initNodes
                            (s\<lparr> srv_nodes := srv_nodes s @ [n],
                                srv_nodeByMAC := (srv_nodeByMAC s)(mac \<mapsto> n),
                                srv_networks := (srv_networks s)
                                  [ni := nw\<lparr> net_nodesByIP := (net_nodesByIP nw)(node_lanIP n \<mapsto> n) \<rparr>] \<rparr>)
                            netOfConf rest))))"

fun initNATs ::
  "'nt nat_types \<Rightarrow> 'nt Server \<Rightarrow> (nat \<rightharpoonup> nat) \<Rightarrow> nat \<Rightarrow> Network list \<Rightarrow> error + 'nt Server" where
  "initNATs nt s netOfConf i [] = Inr s"
| "initNATs nt s netOfConf i (conf # rest) =
     (case netOfConf i of
        None \<Rightarrow> Inl (Panic ''nil network'')
      | Some ni \<Rightarrow>
     (case net_at s ni of
        None \<Rightarrow> Inl (Panic ''nil network'')
      | Some n \<Rightarrow>
          let natType = (if Network_natType conf \<noteq> [] then Network_natType conf else nat_EasyNAT nt)
          in (case InitNAT nt n natType of
                Inl e \<Rightarrow> Inl e
              | Inr n' \<Rightarrow>
                  initNATs nt (s\<lparr> srv_networks := (srv_networks s)[ni := n'] \<rparr>) netOfConf (Suc i) rest)))"

definition initFromConfig :: "'nt nat_types \<Rightarrow> 'nt Server \<Rightarrow> Config \<Rightarrow> error + 'nt Server" where
  "initFromConfig nt s c =
     (case initNetworks s Map.empty 0 (cfg_networks c) of
        Inl e \<Rightarrow> Inl e
      | Inr (s1, netOfConf) \<Rightarrow>
          (case initNodes s1 netOfConf (cfg_nodes c) of
             Inl e \<Rightarrow> Inl e
           | Inr s2 \<Rightarrow> initNATs nt s2 netOfConf 0 (cfg_networks c)))"

text \<open>The server as \<^verbatim>\<open>New\<close> creates it, before \<^verbatim>\<open>initFromConfig\<close>.\<close>

definition newServer :: "'nt Server" where
  "newServer = \<lparr> srv_derpIPs = {}, srv_nodes = [], srv_nodeByMAC = Map.empty,
                 srv_networks = [], srv_networkByWAN = Map.empty \<rparr>"

section \<open>Guest transports\<close>

text \<open>
  \<^verbatim>\<open>ServeUnixConn\<close> reads frames in a loop. What the connection delivers is a list of
  read events: a failed read, or a frame with the packet decoded from it and the clock
  reading at that moment. The loop keeps the node it has locked onto (\<^verbatim>\<open>srcNode\<close>) and
  the deferred removal of the writer it has registered (network and MAC). \<open>w\<close> is the
  writer of this connection.
\<close>

datatype Protocol = ProtocolQEMU | ProtocolUnixDGRAM

datatype read_event = ReadError | ReadFrame Packet int

record conn_state =
  cs_srcNode :: "node option"
  cs_deferred :: "(nat \<times> MAC) option"
  cs_returned :: bool

datatype frame_outcome =
    ReadFailed
  | Ignored
  | Handled "effect list" "error option"
  | Panicked error

definition initialConn :: conn_state where
  "initialConn = \<lparr> cs_srcNode = None, cs_deferred = None, cs_returned = False \<rparr>"

text \<open>One iteration of the loop on a frame that was read.\<close>

definition serveFrame ::
  "serializer \<Rightarrow> writer \<Rightarrow> 'nt Server \<times> conn_state \<Rightarrow> Packet \<Rightarrow> int
     \<Rightarrow> ('nt Server \<times> conn_state) \<times> frame_outcome" where
  "serveFrame ser w sst packet now =
     (case sst of (s, st) \<Rightarrow>
      case pkt_Ethernet packet of
        None \<Rightarrow> ((s, st), Ignored)
      | Some le \<Rightarrow>
          if length (eth_SrcMAC le) \<noteq> 6 \<or> length (eth_DstMAC le) \<noteq> 6 then ((s, st), Ignored)
          else let ep = \<lparr> ep_le = le, ep_gp = packet \<rparr> in
            (case SrcMAC ep of
               None \<Rightarrow> ((s, st), Panicked (Panic ''MAC conversion of a short slice''))
             | Some srcMAC \<Rightarrow>
                 (case cs_srcNode st of
                    None \<Rightarrow>
                      (case srv_nodeByMAC s srcMAC of
                         None \<Rightarrow> ((s, st), Ignored)
                       | Some nd \<Rightarrow>
                           (case net_at s (node_net nd) of
                              None \<Rightarrow> ((s, st\<lparr> cs_srcNode := Some nd \<rparr>), Panicked (Panic ''nil network''))
                            | Some netw \<Rightarrow>
                                let netw' = netw\<lparr> net_writeFunc :=
                                              registerWriter (net_writeFunc netw) srcMAC (Some w) \<rparr>;
                                    s' = s\<lparr> srv_networks := (srv_networks s)[node_net nd := netw'] \<rparr>;
                                    st' = st\<lparr> cs_srcNode := Some nd,
                                              cs_deferred := Some (node_net nd, srcMAC) \<rparr>
                                in (case HandleEthernetPacket ser now s' netw' ep of
                                      (es, err) \<Rightarrow> ((s', st'), Handled es err))))
                  | Some nd \<Rightarrow>
                      if srcMAC \<noteq> node_mac nd then ((s, st), Ignored)
                      else (case net_at s (node_net nd) of
                              None \<Rightarrow> ((s, st), Panicked (Panic ''nil network''))
                            | Some netw \<Rightarrow>
                                (case HandleEthernetPacket ser now s netw ep of
                                   (es, err) \<Rightarrow> ((s, st), Handled es err))))))"

text \<open>
  The deferred call that runs when \<^verbatim>\<open>ServeUnixConn\<close> returns: the writer is removed again.
\<close>

definition runDeferred :: "'nt Server \<times> conn_state \<Rightarrow> 'nt Server \<times> conn_state" where
  "runDeferred sst =
     (case sst of (s, st) \<Rightarrow>
      case cs_deferred st of
        None \<Rightarrow> (s, st\<lparr> cs_returned := True \<rparr>)
      | Some (ni, mac) \<Rightarrow>
          (case net_at s ni of
             None \<Rightarrow> (s, st\<lparr> cs_returned := True \<rparr>)
           | Some netw \<Rightarrow>
               (s\<lparr> srv_networks := (srv_networks s)
                      [ni := netw\<lparr> net_writeFunc := registerWriter (net_writeFunc netw) mac None \<rparr>] \<rparr>,
                st\<lparr> cs_returned := True \<rparr>)))"

text \<open>
  The loop over the read events, with one outcome per event processed. A failed read ends
  a QEMU (length-prefixed) session and is skipped on a datagram session; a panic ends the
  loop.
\<close>

fun ServeUnixConn ::
  "serializer \<Rightarrow> Protocol \<Rightarrow> writer \<Rightarrow> 'nt Server \<times> conn_state \<Rightarrow> read_event list
     \<Rightarrow> ('nt Server \<times> conn_state) \<times> frame_outcome list" where
  "ServeUnixConn ser proto w sst [] = (sst, [])"
| "ServeUnixConn ser proto w sst (ReadError # evs) =
     (if proto = ProtocolQEMU then (runDeferred sst, [ReadFailed])
      else (case ServeUnixConn ser proto w sst evs of (r, outs) \<Rightarrow> (r, ReadFailed # outs)))"
| "ServeUnixConn ser proto w sst (ReadFrame packet now # evs) =
     (case serveFrame ser w sst packet now of
        (sst', Handled es (Some e)) \<Rightarrow> (runDeferred sst', [Handled es (Some e)])
      | (sst', Panicked e) \<Rightarrow> (runDeferred sst', [Panicked e])
      | (sst', out) \<Rightarrow>
          (case ServeUnixConn ser proto w sst' evs of (r, outs) \<Rightarrow> (r, out # outs)))"

section \<open>Agent registry\<close>

text \<open>
  The fields of the server guarded by its mutex \<^verbatim>\<open>mu\<close>: the set of pending agent
  connections and the waiter channel of each node. An agent connection is its node (nil
  is \<open>None\<close>) and its TCP connection, which is never shared by two agent connections; a
  channel is a number. \<^verbatim>\<open>addIdleAgentConn\<close> and \<^verbatim>\<open>takeAgentConnOne\<close> hold the mutex for
  their whole body, so each is one atomic step on these fields, and concurrent calls are
  a sequence of such steps in some order.
\<close>

record agentConn =
  ac_node :: "node option"
  ac_tc :: nat

record agent_state =
  agentConns :: "agentConn set"
  agentConnWaiter :: "node \<rightharpoonup> nat"

text \<open>
  \<^verbatim>\<open>addIdleAgentConn\<close> returns the new state and the waiter channel it tried to signal;
  logging the MAC of a nil node panics before the mutex is taken.
\<close>

definition addIdleAgentConn :: "agent_state \<Rightarrow> agentConn \<Rightarrow> error + (agent_state \<times> nat option)" where
  "addIdleAgentConn s ac =
     (case ac_node ac of
        None \<Rightarrow> Inl (Panic ''nil node'')
      | Some nd \<Rightarrow> Inr (s\<lparr> agentConns := insert ac (agentConns s) \<rparr>, agentConnWaiter s nd))"

text \<open>
  \<^verbatim>\<open>takeAgentConnOne\<close> ranges over the set in an order the runtime chooses and takes the
  first connection of the node: any connection of the node may be the one returned.
\<close>

inductive takeAgentConnOne ::
  "agent_state \<Rightarrow> node option \<Rightarrow> agentConn option \<times> agent_state \<Rightarrow> bool" where
  take: "ac \<in> agentConns s \<Longrightarrow> ac_node ac = n \<Longrightarrow>
         takeAgentConnOne s n (Some ac, s\<lparr> agentConns := agentConns s - {ac} \<rparr>)"
| none: "\<forall>ac \<in> agentConns s. ac_node ac \<noteq> n \<Longrightarrow> takeAgentConnOne s n (None, s)"

text \<open>
  A history of the registry: the atomic steps taken, each with what its caller got back.
\<close>

datatype agent_event = Added agentConn | Took "node option" "agentConn option"

inductive agent_run :: "agent_state \<Rightarrow> agent_event list \<Rightarrow> agent_state \<Rightarrow> bool" where
  run_nil: "agent_run s [] s"
| run_add: "addIdleAgentConn s ac = Inr (s', sig) \<Longrightarrow> agent_run s' evs s'' \<Longrightarrow>
            agent_run s (Added ac # evs) s''"
| run_take: "takeAgentConnOne s n (r, s') \<Longrightarrow> agent_run s' evs s'' \<Longrightarrow>
             agent_run s (Took n r # evs) s''"

fun taken :: "agent_event list \<Rightarrow> agentConn list" where
  "taken [] = []"
| "taken (Took n (Some ac) # evs) = ac # taken evs"
| "taken (_ # evs) = taken evs"

fun added :: "agent_event list \<Rightarrow> agentConn list" where
  "added [] = []"
| "added (Added ac # evs) = ac # added evs"
| "added (_ # evs) = added evs"

section \<open>Notions of the specification\<close>

text \<open>
  The number of copies of a frame that the writer registered for a MAC is called with.
\<close>

definition copiesTo :: "MAC \<Rightarrow> byte list \<Rightarrow> effect list \<Rightarrow> nat" where
  "copiesTo mac frame es =
     length (filter (\<lambda>e. case e of WriterCall m w d \<Rightarrow> m = mac \<and> d = frame | _ \<Rightarrow> False) es)"

text \<open>
  Modelled from the spec: the frames the router generates are Ethernet II frames, so the
  serializer of the packet library (outside the sources) writes the destination MAC of
  the Ethernet layer into octets 0-5 of the frame and the source MAC into octets 6-11.
\<close>

fun layersEthernet :: "out_layers \<Rightarrow> Ethernet" where
  "layersEthernet (ARPFrame eth arp) = eth"
| "layersEthernet (UDPFrame eth ip udp app) = eth"

definition headerFaithful :: "serializer \<Rightarrow> bool" where
  "headerFaithful ser =
     (\<forall>l bs. ser l = Some bs \<longrightarrow>
        take 6 bs = eth_DstMAC (layersEthernet l) \<and> take 6 (drop 6 bs) = eth_SrcMAC (layersEthernet l))"

text \<open>No writer is called with the frame.\<close>

definition noCopy :: "byte list \<Rightarrow> effect list \<Rightarrow> bool" where
  "noCopy frame es = (\<forall>e \<in> set es. case e of WriterCall m w d \<Rightarrow> d \<noteq> frame | _ \<Rightarrow> True)"

text \<open>
  The answer the specification gives to one DNS question: a question of class IN and type
  A for one of the three known names is answered with the synthetic address of that name
  and TTL 60; no other question has an answer.
\<close>

definition spec_dnsAnswers :: "DNSQuestion \<Rightarrow> DNSResourceRecord list" where
  "spec_dnsAnswers q =
     (if q_Class q = 1 \<and> q_Type q = 1 then
        (if q_Name q = ''dns'' then
           [\<lparr> rr_Name = q_Name q, rr_Type = 1, rr_Class = 1, rr_TTL = 60, rr_IP = [4, 11, 4, 11] \<rparr>]
         else if q_Name q = ''test-driver.tailscale'' then
           [\<lparr> rr_Name = q_Name q, rr_Type = 1, rr_Class = 1, rr_TTL = 60, rr_IP = [52, 52, 0, 2] \<rparr>]
         else if q_Name q = ''controlplane.tailscale.com'' then
           [\<lparr> rr_Name = q_Name q, rr_Type = 1, rr_Class = 1, rr_TTL = 60, rr_IP = [52, 52, 0, 1] \<rparr>]
         else [])
      else [])"

text \<open>
  The source MAC of a frame that the transport does not discard as malformed, and the
  first such MAC of a known node among the frames read.
\<close>

definition frameSrc :: "Packet \<Rightarrow> MAC option" where
  "frameSrc p =
     (case pkt_Ethernet p of
        None \<Rightarrow> None
      | Some le \<Rightarrow>
          if length (eth_SrcMAC le) \<noteq> 6 \<or> length (eth_DstMAC le) \<noteq> 6 then None
          else MAC_of_slice (eth_SrcMAC le))"

fun firstKnown :: "(MAC \<rightharpoonup> node) \<Rightarrow> read_event list \<Rightarrow> MAC option" where
  "firstKnown known [] = None"
| "firstKnown known (ReadError # evs) = firstKnown known evs"
| "firstKnown known (ReadFrame p now # evs) =
     (case frameSrc p of
        None \<Rightarrow> firstKnown known evs
      | Some m \<Rightarrow> if known m = None then firstKnown known evs else Some m)"

text \<open>
  What \<^verbatim>\<open>initFromConfig\<close> establishes and the transport relies on: a node is filed under
  its own MAC and its network pointer is valid.
\<close>

definition nodesFiled :: "'nt Server \<Rightarrow> bool" where
  "nodesFiled s =
     (\<forall>m nd. srv_nodeByMAC s m = Some nd \<longrightarrow> node_mac nd = m \<and> node_net nd < length (srv_networks s))"

section \<open>Example configurations\<close>

definition exNATTypes :: "unit nat_types" where
  "exNATTypes = \<lparr> nat_EasyNAT = ''easy'',
                  nat_natTypes = (\<lambda>t. if t = ''easy'' then Some (\<lambda>n. Inr ()) else None) \<rparr>"

definition emptyConfig :: Config where
  "emptyConfig = \<lparr> cfg_nodes = [], cfg_networks = [] \<rparr>"

text \<open>One network with WAN address 2.1.1.1 and no LAN prefix given, with two nodes.\<close>

definition defaultConfig :: Config where
  "defaultConfig =
     (let (c1, nw) = AddNetwork emptyConfig [OptWANIP (Addr4 2 1 1 1), OptNAT ''easy''];
          (c2, n0) = AddNode c1 [OptNetwork nw];
          (c3, n1) = AddNode c2 [OptNetwork nw]
      in c3)"

text \<open>One network with LAN prefix 10.0.0.1/30 and one node.\<close>

definition smallLANConfig :: Config where
  "smallLANConfig =
     (let (c1, nw) = AddNetwork emptyConfig
                       [OptWANIP (Addr4 2 1 1 1), OptLANPrefix (Prefix (Addr4 10 0 0 1) 31)];
          (c2, n0) = AddNode c1 [OptNetwork nw]
      in c2)"

definition exMAC0 :: MAC where
  "exMAC0 = MAC 0x52 0xcc 0xcc 0xcc 0xcc 0"

definition exMAC1 :: MAC where
  "exMAC1 = MAC 0x52 0xcc 0xcc 0xcc 0xcc 1"

definition exNode0 :: node where
  "exNode0 = \<lparr> node_mac = exMAC0, node_net = 0, node_lanIP = Addr4 192 168 0 101 \<rparr>"

definition exNode1 :: node where
  "exNode1 = \<lparr> node_mac = exMAC1, node_net = 0, node_lanIP = Addr4 192 168 0 102 \<rparr>"

definition exNetwork :: "registry \<Rightarrow> unit network" where
  "exNetwork reg =
     \<lparr> net_mac = MAC 0x52 0xee 0xee 0xee 0xee 0, net_portmap = False,
       net_wanIP = Addr4 2 1 1 1, net_lanIP = Prefix (Addr4 192 168 0 0) 25,
       net_nodesByIP = [Addr4 192 168 0 101 \<mapsto> exNode0, Addr4 192 168 0 102 \<mapsto> exNode1],
       net_natStyle = Some ''easy'', net_natTable = Some (), net_writeFunc = reg \<rparr>"

text \<open>The server of \<open>defaultConfig\<close>, with the given writers registered on its network.\<close>

definition exServer :: "registry \<Rightarrow> unit Server" where
  "exServer reg =
     \<lparr> srv_derpIPs = {}, srv_nodes = [exNode0, exNode1],
       srv_nodeByMAC = [exMAC0 \<mapsto> exNode0, exMAC1 \<mapsto> exNode1],
       srv_networks = [exNetwork reg],
       srv_networkByWAN = [Addr4 2 1 1 1 \<mapsto> 0] \<rparr>"

text \<open>
  Frames of node 0: an Ethernet header to the broadcast address or to the router, by
  EtherType, followed by the given octets.
\<close>

definition exFrame :: "byte list \<Rightarrow> byte list \<Rightarrow> byte list \<Rightarrow> byte list" where
  "exFrame dst ethertype rest = dst @ [0x52, 0xcc, 0xcc, 0xcc, 0xcc, 0] @ ethertype @ rest"

definition exEthernet :: "byte list \<Rightarrow> 16 word \<Rightarrow> Ethernet" where
  "exEthernet dst t = \<lparr> eth_SrcMAC = [0x52, 0xcc, 0xcc, 0xcc, 0xcc, 0], eth_DstMAC = dst,
                         eth_EthernetType = t \<rparr>"

definition exPacket :: "byte list \<Rightarrow> Ethernet \<Rightarrow> Packet" where
  "exPacket raw le =
     \<lparr> pkt_Data = raw, pkt_Ethernet = Some le, pkt_ARP = None, pkt_IPv4 = None, pkt_UDP = None,
       pkt_TCP = None, pkt_IGMP = False, pkt_DHCPv4 = None, pkt_DNS = None \<rparr>"

definition exIPv4 :: "byte \<Rightarrow> byte list \<Rightarrow> byte list \<Rightarrow> IPv4" where
  "exIPv4 proto src dst =
     \<lparr> ip_Version = 4, ip_TTL = 64, ip_Protocol = proto, ip_SrcIP = src, ip_DstIP = dst,
       ip_Contents = [0x45], ip_Payload = [] \<rparr>"

definition bcast :: "byte list" where
  "bcast = [0xff, 0xff, 0xff, 0xff, 0xff, 0xff]"

definition routerMACbytes :: "byte list" where
  "routerMACbytes = [0x52, 0xee, 0xee, 0xee, 0xee, 0]"

text \<open>A DHCP Discover broadcast by node 0.\<close>

definition exDiscover :: Packet where
  "exDiscover =
     (exPacket (exFrame bcast [0x08, 0x00] []) (exEthernet bcast EthernetTypeIPv4))
       \<lparr> pkt_IPv4 := Some (exIPv4 17 [0, 0, 0, 0] [255, 255, 255, 255]),
         pkt_UDP := Some \<lparr> udp_SrcPort = 68, udp_DstPort = 67, udp_Payload = [] \<rparr>,
         pkt_DHCPv4 := Some \<lparr> dhcp_Operation = 1, dhcp_HardwareType = 1, dhcp_HardwareLen = 6,
                               dhcp_Xid = 7, dhcp_ClientHWAddr = [0x52, 0xcc, 0xcc, 0xcc, 0xcc, 0],
                               dhcp_Flags = 0, dhcp_YourClientIP = [],
                               dhcp_Options = [\<lparr> opt_Type = 53, opt_Length = 1, opt_Data = [1] \<rparr>] \<rparr> \<rparr>"

text \<open>A UDP datagram of node 0 (192.168.0.101, port 4000) sent through the router.\<close>

definition exUDP :: "byte list \<Rightarrow> 16 word \<Rightarrow> byte list \<Rightarrow> Packet" where
  "exUDP dstIP dstPort payload =
     (exPacket (exFrame routerMACbytes [0x08, 0x00] []) (exEthernet routerMACbytes EthernetTypeIPv4))
       \<lparr> pkt_IPv4 := Some (exIPv4 17 [192, 168, 0, 101] dstIP),
         pkt_UDP := Some \<lparr> udp_SrcPort = 4000, udp_DstPort = dstPort, udp_Payload = payload \<rparr> \<rparr>"

text \<open>A TCP segment of node 0 sent through the router.\<close>

definition exTCP :: "byte list \<Rightarrow> 16 word \<Rightarrow> Packet" where
  "exTCP dstIP dstPort =
     (exPacket (exFrame routerMACbytes [0x08, 0x00] []) (exEthernet routerMACbytes EthernetTypeIPv4))
       \<lparr> pkt_IPv4 := Some (exIPv4 6 [192, 168, 0, 101] dstIP),
         pkt_TCP := Some \<lparr> tcp_SrcPort = 4000, tcp_DstPort = dstPort \<rparr> \<rparr>"

text \<open>
  A serializer for the examples: it refuses a MAC that is not six octets long, and
  otherwise writes the Ethernet header followed by the octets of a raw payload (the
  headers of the other layers are left out).
\<close>

definition exSerializer :: serializer where
  "exSerializer l =
     (let eth = layersEthernet l in
      if length (eth_DstMAC eth) \<noteq> 6 \<or> length (eth_SrcMAC eth) \<noteq> 6 then None
      else Some (eth_DstMAC eth @ eth_SrcMAC eth @
                 (case l of
                    ARPFrame e arp \<Rightarrow> [0x08, 0x06]
                  | UDPFrame e ip udp app \<Rightarrow>
                      [0x08, 0x00] @ (case app of PayloadRaw bs \<Rightarrow> bs | _ \<Rightarrow> []))))"

text \<open>An IPv6 frame broadcast by node 0.\<close>

definition exIPv6Bcast :: Packet where
  "exIPv6Bcast = exPacket (exFrame bcast [0x86, 0xdd] []) (exEthernet bcast EthernetTypeIPv6)"

text \<open>A packet of node 0 as the transport hands it to the router of its network.\<close>

definition exEP :: "Packet \<Rightarrow> EthernetPacket" where
  "exEP p = \<lparr> ep_le = exEthernet routerMACbytes EthernetTypeIPv4, ep_gp = p \<rparr>"

text \<open>A DNS query of node 0 to 4.11.4.11 with one question of type A and class IN.\<close>

definition exDNSQuery :: "string \<Rightarrow> Packet" where
  "exDNSQuery name =
     (exUDP [4, 11, 4, 11] 53 [])
       \<lparr> pkt_DNS := Some \<lparr> dns_ID = 7, dns_QR = False, dns_OpCode = 0, dns_AA = False, dns_TC = False,
                           dns_RD = True, dns_RA = False, dns_ResponseCode = 0, dns_QDCount = 1,
                           dns_ANCount = 0,
                           dns_Questions = [\<lparr> q_Name = name, q_Type = 1, q_Class = 1 \<rparr>],
                           dns_Answers = [] \<rparr> \<rparr>"

text \<open>
  A STUN codec for the examples: a request is the octets 0, 1 followed by the transaction
  id; a response is the octets 1, 1, the transaction id and the mapped address.
\<close>

definition exStun :: "(byte list) stun_codec" where
  "exStun = \<lparr> stun_ParseBindingRequest = (\<lambda>bs. if take 2 bs = [0, 1] then Some (drop 2 bs) else None),
              stun_Response = (\<lambda>txid a. [1, 1] @ txid @ AsSlice (ap_Addr a)) \<rparr>"

text \<open>A STUN request from 2.1.1.1:40000, and a packet to an address that is no WAN address.\<close>

definition exStunRequest :: UDPPacket where
  "exStunRequest = \<lparr> Src = AddrPortFrom (Addr4 2 1 1 1) 40000, Dst = AddrPortFrom (Addr4 1 2 3 4) 3478,
                     Payload = [0, 1, 9, 9] \<rparr>"

definition exStrayPacket :: UDPPacket where
  "exStrayPacket = \<lparr> Src = AddrPortFrom (Addr4 2 1 1 1) 40000, Dst = AddrPortFrom (Addr4 9 9 9 9) 53,
                     Payload = [] \<rparr>"


text \<open>
  Agent connections of node 0, a registry state, and a history: two connections are
  queued and then taken by two callers, and a third caller finds none.
\<close>

definition exAgentConn :: "nat \<Rightarrow> agentConn" where
  "exAgentConn tc = \<lparr> ac_node = Some exNode0, ac_tc = tc \<rparr>"

definition exAgents :: "agentConn set \<Rightarrow> agent_state" where
  "exAgents acs = \<lparr> agentConns = acs, agentConnWaiter = Map.empty \<rparr>"

definition exAgentHistory :: "agent_event list" where
  "exAgentHistory = [Added (exAgentConn 1), Added (exAgentConn 2),
                     Took (Some exNode0) (Some (exAgentConn 2)),
                     Took (Some exNode0) (Some (exAgentConn 1)),
                     Took (Some exNode0) None]"

section \<open>Properties of the link registry\<close>

lemma registerWriter_distinct:
  "distinct (map fst reg) \<Longrightarrow> distinct (map fst (registerWriter reg mac f))"
  by (cases f) (simp_all add: registerWriter_def distinct_update distinct_delete)

lemma writeEth_short: "length res < 12 \<Longrightarrow> writeEth reg res = []"
  by (simp add: writeEth_def)

text \<open>
  C4 (as stated, refuted): a frame whose destination and source MAC are both the broadcast
  address is handed to every registered writer, because the broadcast test comes before
  the test for a frame addressed to its own sender.
\<close>

theorem writeEth_self_broadcast_delivered:
  "sliceMAC (replicate 12 0xff) 0 = sliceMAC (replicate 12 0xff) 6 \<and>
   writeEth [(MAC 0x52 0xcc 0xcc 0xcc 0xcc 0, 7)] (replicate 12 0xff)
     = [WriterCall (MAC 0x52 0xcc 0xcc 0xcc 0xcc 0) 7 (replicate 12 0xff)]"
  by (simp add: writeEth_def sliceMAC_def IsBroadcast_def numeral_nat)

text \<open>
  C4 (amended): for every byte slice passed to \<open>writeEth\<close> whose destination MAC (octets
  0-5) equals its source MAC (octets 6-11) and is not the broadcast address, no writer is
  called.
\<close>

theorem writeEth_self_dropped:
  "sliceMAC res 0 = sliceMAC res 6 \<Longrightarrow> \<not> IsBroadcast (sliceMAC res 0) \<Longrightarrow> writeEth reg res = []"
  by (simp add: writeEth_def Let_def)

theorem writeEth_self_dropped_witness:
  "sliceMAC (replicate 12 0x52) 0 = sliceMAC (replicate 12 0x52) 6 \<and>
   \<not> IsBroadcast (sliceMAC (replicate 12 0x52) 0) \<and>
   writeEth [(MAC 0x52 0x52 0x52 0x52 0x52 0x52, 7)] (replicate 12 0x52) = []"
proof -
  have a: "sliceMAC (replicate 12 0x52) 0 = sliceMAC (replicate 12 0x52) 6"
    by (simp add: sliceMAC_def)
  have b: "\<not> IsBroadcast (sliceMAC (replicate 12 0x52) 0)"
    by (simp add: sliceMAC_def IsBroadcast_def)
  from writeEth_self_dropped [OF a b] a b show ?thesis by blast
qed

section \<open>Broadcast frames\<close>

lemma copiesTo_map:
  "copiesTo mac frame (map (\<lambda>(m, w). WriterCall m w frame) reg) = length (filter (\<lambda>m. m = mac) (map fst reg))"
  by (induction reg) (auto simp: copiesTo_def)

lemma distinct_count1:
  "distinct xs \<Longrightarrow> x \<in> set xs \<Longrightarrow> length (filter (\<lambda>m. m = x) xs) = 1"
  by (induction xs) (auto simp: filter_empty_conv)

lemma decodeEthernet_Some:
  "decodeEthernet bs = Some le \<Longrightarrow> length bs \<ge> 14 \<and> eth_DstMAC le = take 6 bs \<and> eth_SrcMAC le = take 6 (drop 6 bs)"
  by (auto simp: decodeEthernet_def Let_def split: if_splits)

lemma six_or_more:
  "6 \<le> length bs \<Longrightarrow> \<exists>a b c d e f r. bs = a # b # c # d # e # f # r"
  by (auto simp: eval_nat_numeral Suc_le_length_iff)

lemma MAC_of_slice_take6:
  "6 \<le> length bs \<Longrightarrow> MAC_of_slice (take 6 bs) = Some (sliceMAC bs 0)"
  by (drule six_or_more) (auto simp: sliceMAC_def)

text \<open>
  C1 (as stated, refuted): only IPv4 frames are fanned out. An IPv6 frame that node 0
  broadcasts is dropped by the EtherType switch, and the writer registered for node 1 is
  not called.
\<close>

theorem broadcast_not_ipv4_no_copy:
  "decodeEthernet (pkt_Data exIPv6Bcast) = Some (exEthernet bcast EthernetTypeIPv6) \<and>
   IsBroadcast (sliceMAC (pkt_Data exIPv6Bcast) 0) \<and>
   (exMAC1, 2) \<in> set (net_writeFunc (exNetwork [(exMAC0, 1), (exMAC1, 2)])) \<and>
   exMAC1 \<noteq> sliceMAC (pkt_Data exIPv6Bcast) 6 \<and>
   HandleEthernetPacket exSerializer 0 (exServer [(exMAC0, 1), (exMAC1, 2)])
        (exNetwork [(exMAC0, 1), (exMAC1, 2)])
        \<lparr> ep_le = exEthernet bcast EthernetTypeIPv6, ep_gp = exIPv6Bcast \<rparr> = ([], None) \<and>
   copiesTo exMAC1 (pkt_Data exIPv6Bcast) [] = 0"
  by (simp add: exIPv6Bcast_def exPacket_def exFrame_def decodeEthernet_def bcast_def exEthernet_def
      EthernetTypeIPv6_def EthernetTypeARP_def EthernetTypeIPv4_def
      IsBroadcast_def sliceMAC_def exNetwork_def exMAC0_def exMAC1_def HandleEthernetPacket_def
      DstMAC_def copiesTo_def)

lemma copiesTo_append: "copiesTo mac frame (xs @ ys) = copiesTo mac frame xs + copiesTo mac frame ys"
  by (simp add: copiesTo_def)

lemma copiesTo_noCopy: "noCopy frame es \<Longrightarrow> copiesTo mac frame es = 0"
  by (auto simp: copiesTo_def noCopy_def filter_empty_conv split: effect.splits)

lemma noCopy_Nil: "noCopy frame []"
  by (simp add: noCopy_def)

lemma noCopy_writeEth: "res \<noteq> frame \<Longrightarrow> noCopy frame (writeEth reg res)"
  by (auto simp: noCopy_def writeEth_def Let_def split: option.splits)

lemma noCopy_single: "noCopy frame [NATOutAndRoute a b c]" "noCopy frame [InjectInbound d]"
  by (simp_all add: noCopy_def)

lemma HWAddr_inj: "HWAddr a = HWAddr b \<Longrightarrow> a = b"
  by (cases a; cases b) simp

lemma take6_HW0: "6 \<le> length bs \<Longrightarrow> take 6 bs = HWAddr (sliceMAC bs 0)"
  by (drule six_or_more) (auto simp: sliceMAC_def)

lemma sliceMAC_drop: "sliceMAC (drop 6 bs) 0 = sliceMAC bs 6" if "12 \<le> length bs"
  using that by (simp add: sliceMAC_def add.commute)

lemma take6_HW6: "12 \<le> length bs \<Longrightarrow> take 6 (drop 6 bs) = HWAddr (sliceMAC bs 6)"
  using take6_HW0 [of "drop 6 bs"] sliceMAC_drop [of bs] by simp

lemma serialize_Inr:
  "serialize ser ls = Inr res \<Longrightarrow> headerFaithful ser \<Longrightarrow>
   res = [] \<or> (\<exists>l. ls = Some l \<and> take 6 res = eth_DstMAC (layersEthernet l) \<and>
                   take 6 (drop 6 res) = eth_SrcMAC (layersEthernet l))"
  by (auto simp: serialize_def headerFaithful_def split: option.splits)

lemma dhcp_layers_dst:
  "createDHCPResponse_layers s pkt = Inr (Some l) \<Longrightarrow> pkt_Ethernet pkt = Some le \<Longrightarrow>
   eth_DstMAC (layersEthernet l) = eth_SrcMAC le"
  by (auto simp: createDHCPResponse_layers_def split: option.splits)

lemma dns_layers_dst:
  "createDNSResponse_layers pkt = Inr (Some l) \<Longrightarrow> pkt_Ethernet pkt = Some le \<Longrightarrow>
   eth_DstMAC (layersEthernet l) = eth_SrcMAC le"
  by (auto simp: createDNSResponse_layers_def split: option.splits if_splits)

lemma arp_layers_dst:
  "createARPResponse_layers n pkt = Some l \<Longrightarrow> pkt_Ethernet pkt = Some le \<Longrightarrow>
   eth_DstMAC (layersEthernet l) = eth_SrcMAC le"
  by (auto simp: createARPResponse_layers_def split: option.splits if_splits)

lemma udp_layers_src:
  "WriteUDPPacketNoNAT_layers n p = Some l \<Longrightarrow> eth_SrcMAC (layersEthernet l) = HWAddr (net_mac n)"
  by (auto simp: WriteUDPPacketNoNAT_layers_def split: option.splits)


lemma reply_noCopy:
  assumes r: "writeReply n (case ls of Inl e \<Rightarrow> Inl e | Inr x \<Rightarrow> serialize ser x) = Inr es"
    and hf: "headerFaithful ser"
    and dst: "\<And>l. ls = Inr (Some l) \<Longrightarrow> eth_DstMAC (layersEthernet l) = take 6 (drop 6 frame)"
    and ne: "frame \<noteq> []" "take 6 frame \<noteq> take 6 (drop 6 frame)"
  shows "noCopy frame es"
proof (cases ls)
  case (Inl e)
  with r show ?thesis by (cases e) (auto simp: writeReply_def noCopy_Nil)
next
  case (Inr x)
  show ?thesis
  proof (cases "serialize ser x")
    case (Inl e)
    with r Inr show ?thesis by (cases e) (auto simp: writeReply_def noCopy_Nil)
  next
    case (Inr res)
    with r \<open>ls = Inr x\<close> have es: "es = writeEth (net_writeFunc n) res"
      by (simp add: writeReply_def)
    from serialize_Inr [OF Inr hf] have "res \<noteq> frame"
    proof
      assume "res = []" with ne show ?thesis by simp
    next
      assume "\<exists>l. x = Some l \<and> take 6 res = eth_DstMAC (layersEthernet l) \<and>
                   take 6 (drop 6 res) = eth_SrcMAC (layersEthernet l)"
      then obtain l where "x = Some l" "take 6 res = eth_DstMAC (layersEthernet l)" by blast
      with dst [of l] \<open>ls = Inr x\<close> have "take 6 res = take 6 (drop 6 frame)" by simp
      with ne show ?thesis by auto
    qed
    then show ?thesis unfolding es by (rule noCopy_writeEth)
  qed
qed

lemma udp_noCopy:
  assumes hf: "headerFaithful ser"
    and ne: "take 6 (drop 6 frame) \<noteq> HWAddr (net_mac n)"
  shows "noCopy frame (WriteUDPPacketNoNAT ser n p)"
proof (cases "WriteUDPPacketNoNAT_layers n p")
  case None
  then show ?thesis by (simp add: WriteUDPPacketNoNAT_def noCopy_Nil)
next
  case (Some l)
  show ?thesis
  proof (cases "ser l")
    case None
    with Some show ?thesis by (simp add: WriteUDPPacketNoNAT_def noCopy_Nil)
  next
    case (Some res)
    with hf have "take 6 (drop 6 res) = eth_SrcMAC (layersEthernet l)"
      by (simp add: headerFaithful_def)
    with udp_layers_src [OF \<open>WriteUDPPacketNoNAT_layers n p = Some l\<close>] ne have "res \<noteq> frame" by auto
    then show ?thesis
      using Some \<open>WriteUDPPacketNoNAT_layers n p = Some l\<close>
      by (simp add: WriteUDPPacketNoNAT_def noCopy_writeEth)
  qed
qed

lemma natpmp_noCopy:
  "handleNATPMPRequest ser now n req = Inr es \<Longrightarrow> headerFaithful ser \<Longrightarrow>
   take 6 (drop 6 frame) \<noteq> HWAddr (net_mac n) \<Longrightarrow> noCopy frame es"
  by (auto simp: handleNATPMPRequest_def noCopy_Nil udp_noCopy split: if_splits option.splits)

lemma router_noCopy:
  assumes r: "HandleEthernetIPv4PacketForRouter ser now s n \<lparr> ep_le = le, ep_gp = gp \<rparr> = Inr es"
    and link: "pkt_Ethernet gp = Some le"
    and src: "eth_SrcMAC le = take 6 (drop 6 frame)"
    and hf: "headerFaithful ser"
    and ne: "frame \<noteq> []" "take 6 frame \<noteq> take 6 (drop 6 frame)"
      "take 6 (drop 6 frame) \<noteq> HWAddr (net_mac n)"
  shows "noCopy frame es"
proof (cases "pkt_IPv4 gp")
  case None
  with r show ?thesis by (simp add: HandleEthernetIPv4PacketForRouter_def noCopy_Nil)
next
  case (Some v4)
  note v4 = Some
  have dh: "\<And>l. createDHCPResponse_layers s gp = Inr (Some l) \<Longrightarrow>
      eth_DstMAC (layersEthernet l) = take 6 (drop 6 frame)"
    using dhcp_layers_dst [OF _ link] src by simp
  have dn: "\<And>l. createDNSResponse_layers gp = Inr (Some l) \<Longrightarrow>
      eth_DstMAC (layersEthernet l) = take 6 (drop 6 frame)"
    using dns_layers_dst [OF _ link] src by simp
  consider (dhcp) "isDHCPRequest gp"
    | (quiet) "\<not> isDHCPRequest gp" "isMDNSQuery gp \<or> isIGMP gp"
    | (dns) "\<not> isDHCPRequest gp" "\<not> (isMDNSQuery gp \<or> isIGMP gp)" "isDNSRequest gp"
    | (other) "\<not> isDHCPRequest gp" "\<not> (isMDNSQuery gp \<or> isIGMP gp)" "\<not> isDNSRequest gp"
    by blast
  then show ?thesis
  proof cases
    case dhcp
    with r v4 have "writeReply n (createDHCPResponse ser s gp) = Inr es"
      by (simp add: HandleEthernetIPv4PacketForRouter_def Let_def)
    then show ?thesis
      unfolding createDHCPResponse_def by (rule reply_noCopy [OF _ hf dh ne(1,2)])
  next
    case quiet
    with r v4 show ?thesis
      by (simp add: HandleEthernetIPv4PacketForRouter_def Let_def noCopy_Nil)
  next
    case dns
    with r v4 have "writeReply n (createDNSResponse ser gp) = Inr es"
      by (simp add: HandleEthernetIPv4PacketForRouter_def Let_def)
    then show ?thesis
      unfolding createDNSResponse_def by (rule reply_noCopy [OF _ hf dn ne(1,2)])
  next
    case other
    with r v4 show ?thesis
      by (auto simp: HandleEthernetIPv4PacketForRouter_def Let_def noCopy_Nil noCopy_single
          split: if_splits option.splits dest: natpmp_noCopy [OF _ hf ne(3)])
  qed
qed

lemma arp_noCopy:
  assumes r: "createARPResponse ser n gp = Inr res"
    and link: "pkt_Ethernet gp = Some le"
    and src: "eth_SrcMAC le = take 6 (drop 6 frame)"
    and hf: "headerFaithful ser"
    and ne: "frame \<noteq> []" "take 6 frame \<noteq> take 6 (drop 6 frame)"
  shows "res \<noteq> frame"
proof -
  from r have "serialize ser (createARPResponse_layers n gp) = Inr res"
    by (simp add: createARPResponse_def)
  from serialize_Inr [OF this hf] show ?thesis
  proof
    assume "res = []" with ne show ?thesis by simp
  next
    assume "\<exists>l. createARPResponse_layers n gp = Some l \<and> take 6 res = eth_DstMAC (layersEthernet l) \<and>
                   take 6 (drop 6 res) = eth_SrcMAC (layersEthernet l)"
    then obtain l where l: "createARPResponse_layers n gp = Some l"
      "take 6 res = eth_DstMAC (layersEthernet l)" by blast
    from arp_layers_dst [OF l(1) link] l(2) src have "take 6 res = take 6 (drop 6 frame)" by simp
    with ne show ?thesis by auto
  qed
qed

text \<open>
  C1 (amended): when a node (whose MAC is neither the broadcast address nor the router's)
  sends an IPv4 frame whose destination MAC is the broadcast address, every registered
  MAC on the same network other than the sender receives exactly one copy of the frame:
  among all the writer calls that handling the frame causes, exactly one is a call of that
  MAC's writer with the frame. A broadcast frame of any other EtherType is delivered to
  no other registered MAC. The serializer is assumed to write the Ethernet header of the
  replies it is given.
\<close>

theorem broadcast_copies:
  assumes dec: "decodeEthernet (pkt_Data gp) = Some le"
    and link: "pkt_Ethernet gp = Some le"
    and bc: "IsBroadcast (sliceMAC (pkt_Data gp) 0)"
    and snd: "\<not> IsBroadcast (sliceMAC (pkt_Data gp) 6)" "sliceMAC (pkt_Data gp) 6 \<noteq> net_mac n"
    and hf: "headerFaithful ser"
    and dist: "distinct (map fst (net_writeFunc n))"
    and reg: "(mac, w) \<in> set (net_writeFunc n)"
    and other: "mac \<noteq> sliceMAC (pkt_Data gp) 6"
  shows "copiesTo mac (pkt_Data gp) (fst (HandleEthernetPacket ser now s n \<lparr> ep_le = le, ep_gp = gp \<rparr>))
           = (if eth_EthernetType le = EthernetTypeIPv4 then 1 else 0)"
proof -
  let ?D = "pkt_Data gp"
  let ?ep = "\<lparr> ep_le = le, ep_gp = gp \<rparr>"
  from decodeEthernet_Some [OF dec] have len: "length ?D \<ge> 14"
    and d: "eth_DstMAC le = take 6 ?D" and sr: "eth_SrcMAC le = take 6 (drop 6 ?D)" by auto
  have dm: "DstMAC ?ep = Some (sliceMAC ?D 0)"
    using len by (simp add: DstMAC_def d MAC_of_slice_take6)
  have t0: "take 6 ?D = HWAddr (sliceMAC ?D 0)" using len by (simp add: take6_HW0)
  have t6: "take 6 (drop 6 ?D) = HWAddr (sliceMAC ?D 6)" using len by (simp add: take6_HW6)
  have ne1: "?D \<noteq> []" using len by auto
  have ne2: "take 6 ?D \<noteq> take 6 (drop 6 ?D)"
    using bc snd(1) unfolding t0 t6 by (auto dest: HWAddr_inj)
  have ne3: "take 6 (drop 6 ?D) \<noteq> HWAddr (net_mac n)"
    using snd(2) unfolding t6 by (auto dest: HWAddr_inj)
  have fan: "writeEth (net_writeFunc n) ?D = map (\<lambda>(m, w). WriterCall m w ?D) (net_writeFunc n)"
    using len bc by (simp add: writeEth_def Let_def)
  have mem: "mac \<in> set (map fst (net_writeFunc n))" using reg by force
  have one: "copiesTo mac ?D (writeEth (net_writeFunc n) ?D) = 1"
    unfolding fan copiesTo_map by (rule distinct_count1 [OF dist mem])
  have tys: "EthernetTypeIPv4 \<noteq> EthernetTypeARP" "EthernetTypeIPv4 \<noteq> EthernetTypeIPv6"
    by (simp_all add: EthernetTypeIPv4_def EthernetTypeARP_def EthernetTypeIPv6_def)
  show ?thesis
  proof (cases "eth_EthernetType le = EthernetTypeIPv4")
    case True
    show ?thesis
    proof (cases "HandleEthernetIPv4PacketForRouter ser now s n ?ep")
      case (Inl e)
      then show ?thesis using True tys one
        by (simp add: HandleEthernetPacket_def dm bc Let_def)
    next
      case (Inr es)
      from router_noCopy [OF Inr link sr hf ne1 ne2 ne3] have "copiesTo mac ?D es = 0"
        by (rule copiesTo_noCopy)
      then show ?thesis using True tys one Inr
        by (simp add: HandleEthernetPacket_def dm bc Let_def copiesTo_append)
    qed
  next
    case False
    show ?thesis
    proof (cases "eth_EthernetType le = EthernetTypeARP")
      case True
      show ?thesis
      proof (cases "createARPResponse ser n gp")
        case (Inl e)
        then show ?thesis using True False
          by (simp add: HandleEthernetPacket_def dm Let_def copiesTo_def)
      next
        case (Inr res)
        from arp_noCopy [OF Inr link sr hf ne1 ne2]
        have "copiesTo mac ?D (writeEth (net_writeFunc n) res) = 0"
          by (intro copiesTo_noCopy noCopy_writeEth)
        then show ?thesis using True False Inr
          by (simp add: HandleEthernetPacket_def dm Let_def)
      qed
    next
      case notarp: False
      then show ?thesis using False
        by (simp add: HandleEthernetPacket_def dm Let_def copiesTo_def)
    qed
  qed
qed


lemma exDiscover_data: "pkt_Data exDiscover = bcast @ [0x52, 0xcc, 0xcc, 0xcc, 0xcc, 0, 0x08, 0x00]"
  by (simp add: exDiscover_def exPacket_def exFrame_def)

lemma exSerializer_faithful: "headerFaithful exSerializer"
  by (auto simp: headerFaithful_def exSerializer_def Let_def split: if_splits)

lemma ex_facts:
  "decodeEthernet (pkt_Data exDiscover) = Some (exEthernet bcast EthernetTypeIPv4)"
  "pkt_Ethernet exDiscover = Some (exEthernet bcast EthernetTypeIPv4)"
  "IsBroadcast (sliceMAC (pkt_Data exDiscover) 0)"
  "\<not> IsBroadcast (sliceMAC (pkt_Data exDiscover) 6)"
  "sliceMAC (pkt_Data exDiscover) 6 \<noteq> net_mac (exNetwork [(exMAC0, 1), (exMAC1, 2)])"
  "headerFaithful exSerializer"
  "distinct (map fst (net_writeFunc (exNetwork [(exMAC0, 1), (exMAC1, 2)])))"
  "(exMAC1, 2) \<in> set (net_writeFunc (exNetwork [(exMAC0, 1), (exMAC1, 2)]))"
  "exMAC1 \<noteq> sliceMAC (pkt_Data exDiscover) 6"
  by (simp_all add: exDiscover_data decodeEthernet_def bcast_def exEthernet_def EthernetTypeIPv4_def
      IsBroadcast_def sliceMAC_def exNetwork_def exMAC0_def exMAC1_def exSerializer_faithful)
     (simp_all add: exDiscover_def exPacket_def exEthernet_def bcast_def EthernetTypeIPv4_def)

theorem broadcast_copies_witness:
  "decodeEthernet (pkt_Data exDiscover) = Some (exEthernet bcast EthernetTypeIPv4) \<and>
   pkt_Ethernet exDiscover = Some (exEthernet bcast EthernetTypeIPv4) \<and>
   IsBroadcast (sliceMAC (pkt_Data exDiscover) 0) \<and>
   \<not> IsBroadcast (sliceMAC (pkt_Data exDiscover) 6) \<and>
   sliceMAC (pkt_Data exDiscover) 6 \<noteq> net_mac (exNetwork [(exMAC0, 1), (exMAC1, 2)]) \<and>
   headerFaithful exSerializer \<and>
   distinct (map fst (net_writeFunc (exNetwork [(exMAC0, 1), (exMAC1, 2)]))) \<and>
   (exMAC1, 2) \<in> set (net_writeFunc (exNetwork [(exMAC0, 1), (exMAC1, 2)])) \<and>
   exMAC1 \<noteq> sliceMAC (pkt_Data exDiscover) 6 \<and>
   copiesTo exMAC1 (pkt_Data exDiscover)
     (fst (HandleEthernetPacket exSerializer 0 (exServer [(exMAC0, 1), (exMAC1, 2)])
        (exNetwork [(exMAC0, 1), (exMAC1, 2)])
        \<lparr> ep_le = exEthernet bcast EthernetTypeIPv4, ep_gp = exDiscover \<rparr>)) = 1"
proof -
  have ty: "eth_EthernetType (exEthernet bcast EthernetTypeIPv4) = EthernetTypeIPv4"
    by (simp add: exEthernet_def)
  from broadcast_copies [OF ex_facts, of 0 "exServer [(exMAC0, 1), (exMAC1, 2)]"] ex_facts ty
  show ?thesis by simp
qed

text \<open>
  The fan-out does not leave out the sender: the writer of node 0 is called with the
  frame node 0 has sent (followed here by the router's DHCP reply to node 0).
\<close>

lemma broadcast_sender_copy:
  "fst (HandleEthernetPacket exSerializer 0 (exServer [(exMAC0, 1), (exMAC1, 2)])
        (exNetwork [(exMAC0, 1), (exMAC1, 2)])
        \<lparr> ep_le = exEthernet bcast EthernetTypeIPv4, ep_gp = exDiscover \<rparr>)
   = [WriterCall exMAC0 1 (pkt_Data exDiscover), WriterCall exMAC1 2 (pkt_Data exDiscover),
      WriterCall exMAC0 1 ([0x52, 0xcc, 0xcc, 0xcc, 0xcc, 0] @ routerMACbytes @ [0x08, 0x00])]
   \<and> sliceMAC (pkt_Data exDiscover) 6 = exMAC0"
  apply (simp add: exDiscover_data HandleEthernetPacket_def DstMAC_def)
  apply (simp add:  exDiscover_def exPacket_def exFrame_def decodeEthernet_def bcast_def exEthernet_def
      EthernetTypeIPv6_def EthernetTypeARP_def EthernetTypeIPv4_def
      IsBroadcast_def sliceMAC_def exNetwork_def exMAC0_def exMAC1_def HandleEthernetPacket_def
      DstMAC_def writeEth_def Let_def HandleEthernetIPv4PacketForRouter_def isDHCPRequest_def
      exIPv4_def IPProtocolUDP_def writeReply_def createDHCPResponse_def createDHCPResponse_layers_def 
      macOf_def exServer_def net_at_def exNode0_def exNode1_def  DHCPOptMessageType_def DHCPMsgTypeUnspecified_def
      serialize_def exSerializer_def routerMACbytes_def dhcpReplyOptions_def HWAddr.simps)
  done


section \<open>Servers built from a configuration\<close>

lemma defaultConfig_eq:
  "defaultConfig = \<lparr> cfg_nodes =
       [\<lparr> Node_err = None, Node_mac = exMAC0, Node_nets = [0] \<rparr>,
        \<lparr> Node_err = None, Node_mac = exMAC1, Node_nets = [0] \<rparr>],
     cfg_networks =
       [\<lparr> Network_mac = MAC 0x52 0xee 0xee 0xee 0xee 0, Network_natType = ''easy'',
          Network_wanIP = Addr4 2 1 1 1, Network_lanIP = Prefix AddrZero 0,
          Network_nodes = [0, 1], Network_svcs = {}, Network_err = None \<rparr>] \<rparr>"
  by (simp add: defaultConfig_def AddNetwork_def AddNode_def emptyConfig_def exMAC0_def exMAC1_def Let_def)

lemma init_default: "initFromConfig exNATTypes newServer defaultConfig = Inr (exServer [])"
  by (simp add: defaultConfig_eq initFromConfig_def newServer_def Prefix_IsValid_def defaultLANPrefix_def
      Let_def Node_Network_def net_at_def As4_def allocLANIP_def exMAC0_def exMAC1_def
      exServer_def exNetwork_def exNode0_def exNode1_def InitNAT_def exNATTypes_def NATPMP_def)

text \<open>
  C2, on the default network: \<open>initFromConfig\<close> gives a network without LAN prefix the
  prefix 192.168.0.0/24, whose address 192.168.0.0 the router uses as its own. The Offer
  to node 52:cc:cc:cc:cc:00 has YourClientIP 192.168.0.101 and the server-ID option
  192.168.0.0.
\<close>

theorem dhcp_default_network:
  "initFromConfig exNATTypes newServer defaultConfig = Inr (exServer []) \<and>
   createDHCPResponse_layers (exServer []) exDiscover =
     Inr (Some (UDPFrame
       \<lparr> eth_SrcMAC = [0x52, 0xee, 0xee, 0xee, 0xee, 0], eth_DstMAC = [0x52, 0xcc, 0xcc, 0xcc, 0xcc, 0],
         eth_EthernetType = 0x0800 \<rparr>
       \<lparr> ip_Version = 4, ip_TTL = 64, ip_Protocol = 17, ip_SrcIP = [255, 255, 255, 255],
         ip_DstIP = [0, 0, 0, 0], ip_Contents = [], ip_Payload = [] \<rparr>
       \<lparr> udp_SrcPort = 67, udp_DstPort = 68, udp_Payload = [] \<rparr>
       (PayloadDHCP
         \<lparr> dhcp_Operation = 2, dhcp_HardwareType = 1, dhcp_HardwareLen = 6, dhcp_Xid = 7,
           dhcp_ClientHWAddr = [0x52, 0xcc, 0xcc, 0xcc, 0xcc, 0], dhcp_Flags = 0,
           dhcp_YourClientIP = [192, 168, 0, 101],
           dhcp_Options = [\<lparr> opt_Type = 54, opt_Length = 4, opt_Data = [192, 168, 0, 0] \<rparr>,
                           \<lparr> opt_Type = 53, opt_Length = 1, opt_Data = [2] \<rparr>] \<rparr>)))"
  by (simp add: init_default createDHCPResponse_layers_def exDiscover_def exPacket_def exEthernet_def
      exIPv4_def macOf_def exServer_def exNetwork_def exMAC0_def exMAC1_def exNode0_def exNode1_def
      net_at_def DHCPOptMessageType_def DHCPMsgTypeUnspecified_def dhcpReplyOptions_def
      DHCPMsgTypeDiscover_def DHCPMsgTypeOffer_def DHCPOptServerID_def AsSlice_def
      EthernetTypeIPv4_def IPProtocolUDP_def DHCPOpReply_def LinkTypeEthernet_def)

lemma smallLANConfig_eq:
  "smallLANConfig = \<lparr> cfg_nodes = [\<lparr> Node_err = None, Node_mac = exMAC0, Node_nets = [0] \<rparr>],
     cfg_networks =
       [\<lparr> Network_mac = MAC 0x52 0xee 0xee 0xee 0xee 0, Network_natType = [],
          Network_wanIP = Addr4 2 1 1 1, Network_lanIP = Prefix (Addr4 10 0 0 1) 31,
          Network_nodes = [0], Network_svcs = {}, Network_err = None \<rparr>] \<rparr>"
  by (simp add: smallLANConfig_def AddNetwork_def AddNode_def emptyConfig_def exMAC0_def Let_def)

text \<open>
  C9, on a network with LAN prefix 10.0.0.1/30: the node gets the address 10.0.0.101,
  which is not inside the prefix.
\<close>

theorem lanIP_outside_small_prefix:
  "(case initFromConfig exNATTypes newServer smallLANConfig of
      Inl e \<Rightarrow> False
    | Inr s \<Rightarrow> srv_nodes s = [\<lparr> node_mac = exMAC0, node_net = 0, node_lanIP = Addr4 10 0 0 101 \<rparr>] \<and>
               map net_lanIP (srv_networks s) = [Prefix (Addr4 10 0 0 1) 31]) \<and>
   \<not> Prefix_Contains (Prefix (Addr4 10 0 0 1) 31) (Addr4 10 0 0 101)"
  by (simp add: smallLANConfig_eq initFromConfig_def newServer_def Prefix_IsValid_def
      Let_def Node_Network_def net_at_def As4_def allocLANIP_def exMAC0_def
      InitNAT_def exNATTypes_def NATPMP_def Prefix_Contains_def BitLen_def Prefix_Bits_def
      be_word_def AsSlice_def)


section \<open>TCP interception\<close>

text \<open>
  C6: for every non-local IPv4 TCP datagram (a packet with an IPv4 and a TCP layer and no
  UDP or IGMP layer, whose destination is neither the router's LAN address nor 0.0.0.0),
  the router injects the datagram into the TCP stack if and only if the destination port
  is 123, or the port is 80 or 443 and the destination is 52.52.0.1 or a DERP address, or
  the port is 8008 and the destination is 52.52.0.2; otherwise it does nothing.
\<close>

theorem tcp_interception:
  assumes v4: "pkt_IPv4 (ep_gp ep) = Some v4"
    and noudp: "pkt_UDP (ep_gp ep) = None"
    and tcp: "pkt_TCP (ep_gp ep) = Some tcp"
    and noigmp: "\<not> pkt_IGMP (ep_gp ep)"
    and dst: "ip_DstIP v4 = [a, b, c, d]"
    and fwd: "toForward n (Addr4 a b c d)"
  shows "HandleEthernetIPv4PacketForRouter ser now s n ep =
           Inr (if tcp_DstPort tcp = 123 \<or>
                   ((tcp_DstPort tcp = 80 \<or> tcp_DstPort tcp = 443) \<and>
                    (Addr4 a b c d = Addr4 52 52 0 1 \<or> Addr4 a b c d \<in> srv_derpIPs s)) \<or>
                   (tcp_DstPort tcp = 8008 \<and> Addr4 a b c d = Addr4 52 52 0 2)
                then [InjectInbound (ip_Contents v4 @ ip_Payload v4)] else [])"
proof -
  have cls: "\<not> isDHCPRequest (ep_gp ep)" "\<not> isMDNSQuery (ep_gp ep)" "\<not> isIGMP (ep_gp ep)"
    "\<not> isDNSRequest (ep_gp ep)" "\<not> isNATPMP (ep_gp ep)"
    using v4 noudp noigmp
    by (simp_all add: isDHCPRequest_def isMDNSQuery_def isIGMP_def isDNSRequest_def isNATPMP_def)
  have a1: "fst (AddrFromSlice (ip_DstIP v4)) = Addr4 a b c d"
    by (simp add: dst AddrFromSlice_def)
  have a2: "fst (AddrFromSlice (To4 (ip_DstIP v4))) = Addr4 a b c d"
    by (simp add: dst AddrFromSlice_def To4_def)
  have si: "shouldInterceptTCP s (ep_gp ep) =
      (tcp_DstPort tcp = 123 \<or>
       ((tcp_DstPort tcp = 80 \<or> tcp_DstPort tcp = 443) \<and>
        (Addr4 a b c d = Addr4 52 52 0 1 \<or> Addr4 a b c d \<in> srv_derpIPs s)) \<or>
       (tcp_DstPort tcp = 8008 \<and> Addr4 a b c d = Addr4 52 52 0 2))"
    unfolding shouldInterceptTCP_def tcp v4 option.case Let_def a2 fakeControlplaneIP_def fakeTestAgentIP_def
    by auto
  show ?thesis
    unfolding HandleEthernetIPv4PacketForRouter_def Let_def v4 option.case a1
    using cls fwd noudp si by auto
qed

theorem tcp_interception_witness:
  "pkt_IPv4 (ep_gp (exEP (exTCP [52, 52, 0, 1] 443))) = Some (exIPv4 6 [192, 168, 0, 101] [52, 52, 0, 1]) \<and>
   pkt_UDP (ep_gp (exEP (exTCP [52, 52, 0, 1] 443))) = None \<and>
   pkt_TCP (ep_gp (exEP (exTCP [52, 52, 0, 1] 443))) = Some \<lparr> tcp_SrcPort = 4000, tcp_DstPort = 443 \<rparr> \<and>
   \<not> pkt_IGMP (ep_gp (exEP (exTCP [52, 52, 0, 1] 443))) \<and>
   ip_DstIP (exIPv4 6 [192, 168, 0, 101] [52, 52, 0, 1]) = [52, 52, 0, 1] \<and>
   toForward (exNetwork []) (Addr4 52 52 0 1) \<and>
   HandleEthernetIPv4PacketForRouter exSerializer 0 (exServer []) (exNetwork []) (exEP (exTCP [52, 52, 0, 1] 443))
     = Inr [InjectInbound [0x45]]"
proof -
  have h: "pkt_IPv4 (ep_gp (exEP (exTCP [52, 52, 0, 1] 443))) = Some (exIPv4 6 [192, 168, 0, 101] [52, 52, 0, 1])"
    "pkt_UDP (ep_gp (exEP (exTCP [52, 52, 0, 1] 443))) = None"
    "pkt_TCP (ep_gp (exEP (exTCP [52, 52, 0, 1] 443))) = Some \<lparr> tcp_SrcPort = 4000, tcp_DstPort = 443 \<rparr>"
    "\<not> pkt_IGMP (ep_gp (exEP (exTCP [52, 52, 0, 1] 443)))"
    "ip_DstIP (exIPv4 6 [192, 168, 0, 101] [52, 52, 0, 1]) = [52, 52, 0, 1]"
    "toForward (exNetwork []) (Addr4 52 52 0 1)"
    by (simp_all add: exEP_def exTCP_def exPacket_def exIPv4_def toForward_def exNetwork_def IPv4Unspecified_def)
  from tcp_interception [OF h, of exSerializer 0 "exServer []"] h
  show ?thesis by (simp add: exIPv4_def)
qed

section \<open>NAT-PMP\<close>

text \<open>
  C8 (as stated, refuted): a datagram of node 0 to 8.8.8.8:5351 with payload \<^verbatim>\<open>00 00\<close> is
  a NAT-PMP packet by \<open>isNATPMP\<close>, but it is not addressed to the router: it is handed to
  the NAT table and the WAN switch like any other UDP datagram, and no reply is written.
\<close>

theorem natpmp_forwarded_not_answered:
  "pkt_UDP (exUDP [8, 8, 8, 8] 5351 [0, 0])
     = Some \<lparr> udp_SrcPort = 4000, udp_DstPort = 5351, udp_Payload = [0, 0] \<rparr> \<and>
   isNATPMP (exUDP [8, 8, 8, 8] 5351 [0, 0]) \<and>
   HandleEthernetIPv4PacketForRouter exSerializer 16909060 (exServer [(exMAC0, 7)]) (exNetwork [(exMAC0, 7)])
       (exEP (exUDP [8, 8, 8, 8] 5351 [0, 0]))
     = Inr [NATOutAndRoute (AddrPortFrom (Addr4 192 168 0 101) 4000)
              (AddrPortFrom (Addr4 8 8 8 8) 5351) [0, 0]]"
  by (simp add: exEP_def exUDP_def exPacket_def exIPv4_def isNATPMP_def
      HandleEthernetIPv4PacketForRouter_def Let_def isDHCPRequest_def isMDNSQuery_def isIGMP_def
      isDNSRequest_def AddrFromSlice_def toForward_def exNetwork_def IPv4Unspecified_def IPProtocolUDP_def)

text \<open>
  C8 (amended): a UDP datagram to port 5351 that is addressed to the router (destination
  the router's LAN address or 0.0.0.0) and whose payload is exactly \<^verbatim>\<open>00 00\<close> is answered,
  on a network whose WAN address is IPv4, with a 12-octet payload: version 0, opcode 128,
  result code 0, the seconds since the epoch as 32 bits big-endian, and the four octets of
  the WAN address; the reply has source and destination swapped and is written as a frame
  from the router to the node that owns the request's source address (nothing is written
  when no node owns it). Any other payload addressed to the router on that port produces
  no reply, and a datagram to port 5351 for another destination is forwarded.
\<close>

theorem natpmp_reply:
  assumes v4: "pkt_IPv4 (ep_gp ep) = Some v4"
    and udp: "pkt_UDP (ep_gp ep) = Some udp"
    and noigmp: "\<not> pkt_IGMP (ep_gp ep)"
    and port: "udp_DstPort udp = 5351"
    and wan: "net_wanIP n = Addr4 w0 w1 w2 w3"
  shows "HandleEthernetIPv4PacketForRouter ser now s n ep =
           (if toForward n (fst (AddrFromSlice (ip_DstIP v4))) then
              Inr [NATOutAndRoute (AddrPortFrom (fst (AddrFromSlice (ip_SrcIP v4))) (udp_SrcPort udp))
                     (AddrPortFrom (fst (AddrFromSlice (ip_DstIP v4))) 5351) (udp_Payload udp)]
            else if udp_Payload udp = [0, 0] then
              Inr (WriteUDPPacketNoNAT ser n
                \<lparr> Src = AddrPortFrom (fst (AddrFromSlice (ip_DstIP v4))) 5351,
                  Dst = AddrPortFrom (fst (AddrFromSlice (ip_SrcIP v4))) (udp_SrcPort udp),
                  Payload = [0, 128, 0, 0] @ AppendUint32 [] (word_of_int now) @ [w0, w1, w2, w3] \<rparr>)
            else Inr []) \<and>
         length ([0, 128, 0, 0] @ AppendUint32 [] (word_of_int now) @ [w0, w1, w2, w3]) = 12 \<and>
         WriteUDPPacketNoNAT_layers n
             \<lparr> Src = AddrPortFrom (fst (AddrFromSlice (ip_DstIP v4))) 5351,
               Dst = AddrPortFrom (fst (AddrFromSlice (ip_SrcIP v4))) (udp_SrcPort udp),
               Payload = [0, 128, 0, 0] @ AppendUint32 [] (word_of_int now) @ [w0, w1, w2, w3] \<rparr>
           = (case net_nodesByIP n (fst (AddrFromSlice (ip_SrcIP v4))) of
                None \<Rightarrow> None
              | Some nd \<Rightarrow>
                  Some (UDPFrame
                    \<lparr> eth_SrcMAC = HWAddr (net_mac n), eth_DstMAC = HWAddr (node_mac nd),
                      eth_EthernetType = EthernetTypeIPv4 \<rparr>
                    \<lparr> ip_Version = 4, ip_TTL = 64, ip_Protocol = IPProtocolUDP,
                      ip_SrcIP = AsSlice (fst (AddrFromSlice (ip_DstIP v4))),
                      ip_DstIP = AsSlice (fst (AddrFromSlice (ip_SrcIP v4))),
                      ip_Contents = [], ip_Payload = [] \<rparr>
                    \<lparr> udp_SrcPort = 5351, udp_DstPort = udp_SrcPort udp, udp_Payload = [] \<rparr>
                    (PayloadRaw ([0, 128, 0, 0] @ AppendUint32 [] (word_of_int now) @ [w0, w1, w2, w3]))))"
proof -
  have cls: "\<not> isDHCPRequest (ep_gp ep)" "\<not> isMDNSQuery (ep_gp ep)" "\<not> isIGMP (ep_gp ep)"
    "\<not> isDNSRequest (ep_gp ep)"
    using v4 udp noigmp port
    by (simp_all add: isDHCPRequest_def isMDNSQuery_def isIGMP_def isDNSRequest_def)
  have pmp: "isNATPMP (ep_gp ep) = (udp_Payload udp \<noteq> [] \<and> udp_Payload udp ! 0 = 0)"
    using udp port by (simp add: isNATPMP_def)
  have a: "HandleEthernetIPv4PacketForRouter ser now s n ep =
           (if toForward n (fst (AddrFromSlice (ip_DstIP v4))) then
              Inr [NATOutAndRoute (AddrPortFrom (fst (AddrFromSlice (ip_SrcIP v4))) (udp_SrcPort udp))
                     (AddrPortFrom (fst (AddrFromSlice (ip_DstIP v4))) 5351) (udp_Payload udp)]
            else if udp_Payload udp = [0, 0] then
              Inr (WriteUDPPacketNoNAT ser n
                \<lparr> Src = AddrPortFrom (fst (AddrFromSlice (ip_DstIP v4))) 5351,
                  Dst = AddrPortFrom (fst (AddrFromSlice (ip_SrcIP v4))) (udp_SrcPort udp),
                  Payload = [0, 128, 0, 0] @ AppendUint32 [] (word_of_int now) @ [w0, w1, w2, w3] \<rparr>)
            else Inr [])"
    unfolding HandleEthernetIPv4PacketForRouter_def Let_def v4 option.case
    using cls pmp udp port wan
    by (auto simp: handleNATPMPRequest_def As4_def natpmpReply_def AppendUint32_def)
  show ?thesis
    unfolding a by (simp add: AppendUint32_def WriteUDPPacketNoNAT_layers_def split: option.split)
qed


theorem natpmp_reply_witness:
  "pkt_IPv4 (ep_gp (exEP (exUDP [192, 168, 0, 0] 5351 [0, 0]))) = Some (exIPv4 17 [192, 168, 0, 101] [192, 168, 0, 0]) \<and>
   pkt_UDP (ep_gp (exEP (exUDP [192, 168, 0, 0] 5351 [0, 0])))
     = Some \<lparr> udp_SrcPort = 4000, udp_DstPort = 5351, udp_Payload = [0, 0] \<rparr> \<and>
   \<not> pkt_IGMP (ep_gp (exEP (exUDP [192, 168, 0, 0] 5351 [0, 0]))) \<and>
   udp_DstPort \<lparr> udp_SrcPort = 4000, udp_DstPort = 5351, udp_Payload = [0, 0] \<rparr> = 5351 \<and>
   net_wanIP (exNetwork [(exMAC0, 7)]) = Addr4 2 1 1 1 \<and>
   HandleEthernetIPv4PacketForRouter exSerializer 16909060 (exServer [(exMAC0, 7)]) (exNetwork [(exMAC0, 7)])
       (exEP (exUDP [192, 168, 0, 0] 5351 [0, 0]))
     = Inr [WriterCall exMAC0 7
              ([0x52, 0xcc, 0xcc, 0xcc, 0xcc, 0] @ routerMACbytes @ [0x08, 0x00] @
               [0, 128, 0, 0, 1, 2, 3, 4, 2, 1, 1, 1])]"
proof -
  have h: "pkt_IPv4 (ep_gp (exEP (exUDP [192, 168, 0, 0] 5351 [0, 0]))) = Some (exIPv4 17 [192, 168, 0, 101] [192, 168, 0, 0])"
    "pkt_UDP (ep_gp (exEP (exUDP [192, 168, 0, 0] 5351 [0, 0])))
       = Some \<lparr> udp_SrcPort = 4000, udp_DstPort = 5351, udp_Payload = [0, 0] \<rparr>"
    "\<not> pkt_IGMP (ep_gp (exEP (exUDP [192, 168, 0, 0] 5351 [0, 0])))"
    "udp_DstPort \<lparr> udp_SrcPort = 4000, udp_DstPort = 5351, udp_Payload = [0, 0] \<rparr> = 5351"
    "net_wanIP (exNetwork [(exMAC0, 7)]) = Addr4 2 1 1 1"
    by (simp_all add: exEP_def exUDP_def exPacket_def exIPv4_def exNetwork_def)
  have w: "WriteUDPPacketNoNAT exSerializer (exNetwork [(exMAC0, 7)])
      \<lparr> Src = AddrPortFrom (Addr4 192 168 0 0) 5351, Dst = AddrPortFrom (Addr4 192 168 0 101) 4000,
        Payload = [0, 128, 0, 0, 1, 2, 3, 4, 2, 1, 1, 1] \<rparr>
     = [WriterCall exMAC0 7
              ([0x52, 0xcc, 0xcc, 0xcc, 0xcc, 0] @ routerMACbytes @ [0x08, 0x00] @
               [0, 128, 0, 0, 1, 2, 3, 4, 2, 1, 1, 1])]"
    by (simp add: WriteUDPPacketNoNAT_def WriteUDPPacketNoNAT_layers_def exNetwork_def exNode0_def
        exSerializer_def Let_def exMAC0_def writeEth_def sliceMAC_def IsBroadcast_def routerMACbytes_def)
  have t: "AppendUint32 [] (16909060 :: 32 word) = [1, 2, 3, 4]"
    by (simp add: AppendUint32_def)
  have nf: "\<not> toForward (exNetwork [(exMAC0, 7)]) (Addr4 192 168 0 0)"
    by (simp add: toForward_def exNetwork_def)
  from natpmp_reply [OF h, of exSerializer 16909060 "exServer [(exMAC0, 7)]"] h
  show ?thesis
    by (simp add: t w nf exIPv4_def AddrFromSlice_def)
qed


section \<open>The fake DNS server\<close>

lemma spec_dnsAnswers_cases:
  "spec_dnsAnswers q =
     (if q_Class q \<noteq> DNSClassIN \<or> q_Type q \<noteq> DNSTypeA then []
      else case IPv4ForDNS (q_Name q) of
             None \<Rightarrow> []
           | Some ip \<Rightarrow> [\<lparr> rr_Name = q_Name q, rr_Type = q_Type q, rr_Class = q_Class q,
                            rr_TTL = 60, rr_IP = AsSlice ip \<rparr>])"
  by (simp add: spec_dnsAnswers_def IPv4ForDNS_def DNSClassIN_def DNSTypeA_def
      fakeDNSIP_def fakeTestAgentIP_def fakeControlplaneIP_def AsSlice_def)

lemma dnsQuestions_step:
  "dnsQuestions r (q # qs) =
     (if HasSuffix (q_Name q) ''.pool.ntp.org'' then None
      else dnsQuestions
             (r\<lparr> dns_QDCount := dns_QDCount r + 1,
                 dns_Questions := dns_Questions r @ [q],
                 dns_ANCount := dns_ANCount r + of_nat (length (spec_dnsAnswers q)),
                 dns_Answers := dns_Answers r @ spec_dnsAnswers q \<rparr>) qs)"
proof (cases "q_Class q \<noteq> DNSClassIN \<or> q_Type q \<noteq> DNSTypeA")
  case True
  then have "spec_dnsAnswers q = []" by (simp add: spec_dnsAnswers_cases)
  with True show ?thesis by (simp add: Let_def)
next
  case False
  show ?thesis
  proof (cases "IPv4ForDNS (q_Name q)")
    case None
    with False have "spec_dnsAnswers q = []" by (simp add: spec_dnsAnswers_cases)
    with False None show ?thesis by (simp add: Let_def)
  next
    case (Some ip)
    with False have "spec_dnsAnswers q = [\<lparr> rr_Name = q_Name q, rr_Type = q_Type q, rr_Class = q_Class q,
                            rr_TTL = 60, rr_IP = AsSlice ip \<rparr>]" by (simp add: spec_dnsAnswers_cases)
    with False Some show ?thesis by (simp add: Let_def)
  qed
qed

lemma dnsQuestions_eq:
  "dnsQuestions r qs =
     (if \<exists>q \<in> set qs. HasSuffix (q_Name q) ''.pool.ntp.org'' then None
      else Some (r\<lparr> dns_QDCount := dns_QDCount r + of_nat (length qs),
                    dns_Questions := dns_Questions r @ qs,
                    dns_ANCount := dns_ANCount r + of_nat (length (concat (map spec_dnsAnswers qs))),
                    dns_Answers := dns_Answers r @ concat (map spec_dnsAnswers qs) \<rparr>))"
proof (induction qs arbitrary: r)
  case Nil
  show ?case by simp
next
  case (Cons q qs)
  show ?case
    unfolding dnsQuestions_step Cons.IH
    by (simp add: algebra_simps)
qed


text \<open>
  C5: for every DNS query (opcode QUERY, not a response, at least one question), if no
  question name ends in \<^verbatim>\<open>.pool.ntp.org\<close> the reply has the flags QR, AA and RA, the id and RD
  of the query, all the questions of the query in order, and as answers exactly those of
  the specification: the synthetic address with TTL 60 for each question of class IN and
  type A that names \<^verbatim>\<open>dns\<close>, \<^verbatim>\<open>test-driver.tailscale\<close> or \<^verbatim>\<open>controlplane.tailscale.com\<close>, and
  nothing for any other question. If some question name ends in \<^verbatim>\<open>.pool.ntp.org\<close>, no
  reply is built and nothing is written.
\<close>

theorem dns_response:
  assumes eth: "pkt_Ethernet pkt = Some ethLayer"
    and ip: "pkt_IPv4 pkt = Some ipLayer"
    and udp: "pkt_UDP pkt = Some udpLayer"
    and dns: "pkt_DNS pkt = Some dnsLayer"
    and query: "dns_OpCode dnsLayer = DNSOpCodeQuery" "\<not> dns_QR dnsLayer" "dns_Questions dnsLayer \<noteq> []"
  shows "createDNSResponse_layers pkt =
           (if \<exists>q \<in> set (dns_Questions dnsLayer). HasSuffix (q_Name q) ''.pool.ntp.org'' then Inr None
            else Inr (Some (UDPFrame
              \<lparr> eth_SrcMAC = eth_DstMAC ethLayer, eth_DstMAC = eth_SrcMAC ethLayer,
                eth_EthernetType = EthernetTypeIPv4 \<rparr>
              \<lparr> ip_Version = 4, ip_TTL = 64, ip_Protocol = IPProtocolUDP,
                ip_SrcIP = ip_DstIP ipLayer, ip_DstIP = ip_SrcIP ipLayer,
                ip_Contents = [], ip_Payload = [] \<rparr>
              \<lparr> udp_SrcPort = udp_DstPort udpLayer, udp_DstPort = udp_SrcPort udpLayer,
                udp_Payload = [] \<rparr>
              (PayloadDNS
                \<lparr> dns_ID = dns_ID dnsLayer, dns_QR = True, dns_OpCode = DNSOpCodeQuery, dns_AA = True,
                  dns_TC = False, dns_RD = dns_RD dnsLayer, dns_RA = True,
                  dns_ResponseCode = DNSResponseCodeNoErr,
                  dns_QDCount = of_nat (length (dns_Questions dnsLayer)),
                  dns_ANCount = of_nat (length (concat (map spec_dnsAnswers (dns_Questions dnsLayer)))),
                  dns_Questions = dns_Questions dnsLayer,
                  dns_Answers = concat (map spec_dnsAnswers (dns_Questions dnsLayer)) \<rparr>)))) \<and>
         ((\<exists>q \<in> set (dns_Questions dnsLayer). HasSuffix (q_Name q) ''.pool.ntp.org'') \<longrightarrow>
            writeReply n (createDNSResponse ser pkt) = Inr [])"
proof -
  let ?ntp = "\<exists>q \<in> set (dns_Questions dnsLayer). HasSuffix (q_Name q) ''.pool.ntp.org''"
  have g: "\<not> (dns_OpCode dnsLayer \<noteq> DNSOpCodeQuery \<or> dns_QR dnsLayer \<or> dns_Questions dnsLayer = [])"
    using query by simp
  have q: "dnsQuestions (dnsResponseHeader dnsLayer) (dns_Questions dnsLayer) =
     (if ?ntp then None
      else Some \<lparr> dns_ID = dns_ID dnsLayer, dns_QR = True, dns_OpCode = DNSOpCodeQuery, dns_AA = True,
                  dns_TC = False, dns_RD = dns_RD dnsLayer, dns_RA = True,
                  dns_ResponseCode = DNSResponseCodeNoErr,
                  dns_QDCount = of_nat (length (dns_Questions dnsLayer)),
                  dns_ANCount = of_nat (length (concat (map spec_dnsAnswers (dns_Questions dnsLayer)))),
                  dns_Questions = dns_Questions dnsLayer,
                  dns_Answers = concat (map spec_dnsAnswers (dns_Questions dnsLayer)) \<rparr>)"
    unfolding dnsQuestions_eq by (simp add: dnsResponseHeader_def)
  have l: "createDNSResponse_layers pkt =
     (case dnsQuestions (dnsResponseHeader dnsLayer) (dns_Questions dnsLayer) of
        None \<Rightarrow> Inr None
      | Some response \<Rightarrow> Inr (Some (UDPFrame
              \<lparr> eth_SrcMAC = eth_DstMAC ethLayer, eth_DstMAC = eth_SrcMAC ethLayer,
                eth_EthernetType = EthernetTypeIPv4 \<rparr>
              \<lparr> ip_Version = 4, ip_TTL = 64, ip_Protocol = IPProtocolUDP,
                ip_SrcIP = ip_DstIP ipLayer, ip_DstIP = ip_SrcIP ipLayer,
                ip_Contents = [], ip_Payload = [] \<rparr>
              \<lparr> udp_SrcPort = udp_DstPort udpLayer, udp_DstPort = udp_SrcPort udpLayer,
                udp_Payload = [] \<rparr>
              (PayloadDNS response))))"
    unfolding createDNSResponse_layers_def eth ip udp dns option.case if_not_P [OF g] ..
  have a: "?ntp \<longrightarrow> writeReply n (createDNSResponse ser pkt) = Inr []"
    unfolding createDNSResponse_def l q
    by (simp add: serialize_def writeReply_def writeEth_def)
  show ?thesis
    unfolding l q using a by (simp del: set_map)
qed



lemma exDNS_layers:
  "pkt_Ethernet (exDNSQuery name) = Some (exEthernet routerMACbytes EthernetTypeIPv4)"
  "pkt_IPv4 (exDNSQuery name) = Some (exIPv4 17 [192, 168, 0, 101] [4, 11, 4, 11])"
  "pkt_UDP (exDNSQuery name) = Some \<lparr> udp_SrcPort = 4000, udp_DstPort = 53, udp_Payload = [] \<rparr>"
  "pkt_DNS (exDNSQuery name) =
     Some \<lparr> dns_ID = 7, dns_QR = False, dns_OpCode = 0, dns_AA = False, dns_TC = False,
            dns_RD = True, dns_RA = False, dns_ResponseCode = 0, dns_QDCount = 1, dns_ANCount = 0,
            dns_Questions = [\<lparr> q_Name = name, q_Type = 1, q_Class = 1 \<rparr>], dns_Answers = [] \<rparr>"
  by (simp_all add: exDNSQuery_def exUDP_def exPacket_def)

theorem dns_response_witness:
  "pkt_Ethernet (exDNSQuery ''controlplane.tailscale.com'') = Some (exEthernet routerMACbytes EthernetTypeIPv4) \<and>
   pkt_IPv4 (exDNSQuery ''controlplane.tailscale.com'') = Some (exIPv4 17 [192, 168, 0, 101] [4, 11, 4, 11]) \<and>
   pkt_UDP (exDNSQuery ''controlplane.tailscale.com'')
     = Some \<lparr> udp_SrcPort = 4000, udp_DstPort = 53, udp_Payload = [] \<rparr> \<and>
   isDNSRequest (exDNSQuery ''controlplane.tailscale.com'') \<and>
   createDNSResponse_layers (exDNSQuery ''controlplane.tailscale.com'') =
     Inr (Some (UDPFrame
       \<lparr> eth_SrcMAC = routerMACbytes, eth_DstMAC = [0x52, 0xcc, 0xcc, 0xcc, 0xcc, 0],
         eth_EthernetType = 0x0800 \<rparr>
       \<lparr> ip_Version = 4, ip_TTL = 64, ip_Protocol = 17, ip_SrcIP = [4, 11, 4, 11],
         ip_DstIP = [192, 168, 0, 101], ip_Contents = [], ip_Payload = [] \<rparr>
       \<lparr> udp_SrcPort = 53, udp_DstPort = 4000, udp_Payload = [] \<rparr>
       (PayloadDNS
         \<lparr> dns_ID = 7, dns_QR = True, dns_OpCode = 0, dns_AA = True, dns_TC = False, dns_RD = True,
           dns_RA = True, dns_ResponseCode = 0, dns_QDCount = 1, dns_ANCount = 1,
           dns_Questions = [\<lparr> q_Name = ''controlplane.tailscale.com'', q_Type = 1, q_Class = 1 \<rparr>],
           dns_Answers = [\<lparr> rr_Name = ''controlplane.tailscale.com'', rr_Type = 1, rr_Class = 1,
                            rr_TTL = 60, rr_IP = [52, 52, 0, 1] \<rparr>] \<rparr>))) \<and>
   isDNSRequest (exDNSQuery ''foo.pool.ntp.org'') \<and>
   HasSuffix ''foo.pool.ntp.org'' ''.pool.ntp.org'' \<and>
   createDNSResponse_layers (exDNSQuery ''foo.pool.ntp.org'') = Inr None \<and>
   writeReply (exNetwork [(exMAC0, 7)]) (createDNSResponse exSerializer (exDNSQuery ''foo.pool.ntp.org'')) = Inr []"
proof -
  have q: "dns_OpCode \<lparr> dns_ID = 7, dns_QR = False, dns_OpCode = 0, dns_AA = False, dns_TC = False,
            dns_RD = True, dns_RA = False, dns_ResponseCode = 0, dns_QDCount = 1, dns_ANCount = 0,
            dns_Questions = [\<lparr> q_Name = name, q_Type = 1, q_Class = 1 \<rparr>], dns_Answers = [] \<rparr> = DNSOpCodeQuery"
     "\<not> dns_QR \<lparr> dns_ID = 7, dns_QR = False, dns_OpCode = 0, dns_AA = False, dns_TC = False,
            dns_RD = True, dns_RA = False, dns_ResponseCode = 0, dns_QDCount = 1, dns_ANCount = 0,
            dns_Questions = [\<lparr> q_Name = name, q_Type = 1, q_Class = 1 \<rparr>], dns_Answers = [] \<rparr>"
     "dns_Questions \<lparr> dns_ID = 7, dns_QR = False, dns_OpCode = 0, dns_AA = False, dns_TC = False,
            dns_RD = True, dns_RA = False, dns_ResponseCode = 0, dns_QDCount = 1, dns_ANCount = 0,
            dns_Questions = [\<lparr> q_Name = name, q_Type = 1, q_Class = 1 \<rparr>], dns_Answers = [] \<rparr> \<noteq> []"
    for name by (simp_all add: DNSOpCodeQuery_def)
  have r: "isDNSRequest (exDNSQuery name)" for name
    by (simp add: isDNSRequest_def exDNS_layers exIPv4_def AddrFromSlice_def fakeDNSIP_def)
  have sfx: "HasSuffix ''foo.pool.ntp.org'' ''.pool.ntp.org''"
    by (simp add: HasSuffix_def)
  have nsfx: "\<not> HasSuffix ''controlplane.tailscale.com'' ''.pool.ntp.org''"
    by (simp add: HasSuffix_def)
  from dns_response [OF exDNS_layers q, of "''controlplane.tailscale.com''" "exNetwork [(exMAC0, 7)]" exSerializer]
       dns_response [OF exDNS_layers q, of "''foo.pool.ntp.org''" "exNetwork [(exMAC0, 7)]" exSerializer]
       exDNS_layers r sfx nsfx
  show ?thesis
    by (simp add: spec_dnsAnswers_def exEthernet_def exIPv4_def routerMACbytes_def
        EthernetTypeIPv4_def IPProtocolUDP_def DNSOpCodeQuery_def DNSResponseCodeNoErr_def)
qed

section \<open>The STUN reflector of the WAN switch\<close>

text \<open>
  C7: for every UDP packet routed on the WAN whose destination port is 3478 and whose
  payload parses as a STUN binding request, the reply has the original destination as
  source, the original source as destination and as payload the STUN response for the
  request's transaction id with the original source as mapped address, and
  \<open>routeUDPPacket\<close> continues as \<open>routeUDPPacket\<close> on that reply (which, when the original
  source port is not 3478, hands the reply to the network that owns the original source
  address, or drops it). A packet to another port whose destination address is not a
  known WAN address is dropped.
\<close>

theorem stun_reflector:
  "(ap_Port (Dst up) = stunPort \<and> stun_ParseBindingRequest stun (Payload up) = Some txid \<longrightarrow>
      makeSTUNReply stun up
        = Some \<lparr> Src = Dst up, Dst = Src up, Payload = stun_Response stun txid (Src up) \<rparr> \<and>
      routeUDPPacket stun s up
        = routeUDPPacket stun s \<lparr> Src = Dst up, Dst = Src up, Payload = stun_Response stun txid (Src up) \<rparr> \<and>
      (ap_Port (Src up) \<noteq> stunPort \<longrightarrow>
         routeUDPPacket stun s up =
           Some (case srv_networkByWAN s (ap_Addr (Src up)) of
                   None \<Rightarrow> Dropped
                 | Some netw \<Rightarrow> ToNetwork netw
                     \<lparr> Src = Dst up, Dst = Src up, Payload = stun_Response stun txid (Src up) \<rparr>))) \<and>
   (ap_Port (Dst up) \<noteq> stunPort \<and> srv_networkByWAN s (ap_Addr (Dst up)) = None \<longrightarrow>
      routeUDPPacket stun s up = Some Dropped)"
proof -
  have a: "ap_Port (Dst up) \<noteq> stunPort \<and> srv_networkByWAN s (ap_Addr (Dst up)) = None \<longrightarrow>
      routeUDPPacket stun s up = Some Dropped"
    by (subst routeUDPPacket.simps) simp
  {
    assume p: "ap_Port (Dst up) = stunPort" and t: "stun_ParseBindingRequest stun (Payload up) = Some txid"
    let ?res = "\<lparr> Src = Dst up, Dst = Src up, Payload = stun_Response stun txid (Src up) \<rparr>"
    have m: "makeSTUNReply stun up = Some ?res" by (simp add: makeSTUNReply_def t)
    have r: "routeUDPPacket stun s up = routeUDPPacket stun s ?res"
      by (subst routeUDPPacket.simps) (simp add: p m)
    have "ap_Port (Src up) \<noteq> stunPort \<longrightarrow>
         routeUDPPacket stun s up =
           Some (case srv_networkByWAN s (ap_Addr (Src up)) of
                   None \<Rightarrow> Dropped
                 | Some netw \<Rightarrow> ToNetwork netw ?res)"
      unfolding r by (subst routeUDPPacket.simps) (simp split: option.split)
    note m r this
  }
  with a show ?thesis by blast
qed



theorem stun_reflector_witness:
  "ap_Port (Dst exStunRequest) = stunPort \<and>
   stun_ParseBindingRequest exStun (Payload exStunRequest) = Some [9, 9] \<and>
   ap_Port (Src exStunRequest) \<noteq> stunPort \<and>
   makeSTUNReply exStun exStunRequest
     = Some \<lparr> Src = AddrPortFrom (Addr4 1 2 3 4) 3478, Dst = AddrPortFrom (Addr4 2 1 1 1) 40000,
              Payload = [1, 1, 9, 9, 2, 1, 1, 1] \<rparr> \<and>
   routeUDPPacket exStun (exServer []) exStunRequest
     = Some (ToNetwork 0 \<lparr> Src = AddrPortFrom (Addr4 1 2 3 4) 3478, Dst = AddrPortFrom (Addr4 2 1 1 1) 40000,
                           Payload = [1, 1, 9, 9, 2, 1, 1, 1] \<rparr>) \<and>
   ap_Port (Dst exStrayPacket) \<noteq> stunPort \<and>
   srv_networkByWAN (exServer []) (ap_Addr (Dst exStrayPacket)) = None \<and>
   routeUDPPacket exStun (exServer []) exStrayPacket = Some Dropped"
proof -
  have h: "ap_Port (Dst exStunRequest) = stunPort"
    "stun_ParseBindingRequest exStun (Payload exStunRequest) = Some [9, 9]"
    "ap_Port (Src exStunRequest) \<noteq> stunPort"
    "ap_Port (Dst exStrayPacket) \<noteq> stunPort"
    "srv_networkByWAN (exServer []) (ap_Addr (Dst exStrayPacket)) = None"
    by (simp_all add: exStunRequest_def exStrayPacket_def exStun_def stunPort_def exServer_def)
  let ?res = "\<lparr> Src = Dst exStunRequest, Dst = Src exStunRequest,
                 Payload = stun_Response exStun [9, 9] (Src exStunRequest) \<rparr>"
  have r1: "makeSTUNReply exStun exStunRequest = Some ?res"
    using stun_reflector [of exStunRequest exStun "[9, 9]" "exServer []"] h by blast
  have r2: "routeUDPPacket exStun (exServer []) exStunRequest =
      Some (case srv_networkByWAN (exServer []) (ap_Addr (Src exStunRequest)) of
              None \<Rightarrow> Dropped | Some netw \<Rightarrow> ToNetwork netw ?res)"
    using stun_reflector [of exStunRequest exStun "[9, 9]" "exServer []"] h by blast
  have r3: "routeUDPPacket exStun (exServer []) exStrayPacket = Some Dropped"
    using stun_reflector [of exStrayPacket exStun "[9, 9]" "exServer []"] h by blast
  have e: "?res = \<lparr> Src = AddrPortFrom (Addr4 1 2 3 4) 3478, Dst = AddrPortFrom (Addr4 2 1 1 1) 40000,
                     Payload = [1, 1, 9, 9, 2, 1, 1, 1] \<rparr>"
    by (simp add: exStunRequest_def exStun_def AsSlice_def)
  have n: "srv_networkByWAN (exServer []) (ap_Addr (Src exStunRequest)) = Some 0"
    by (simp add: exStunRequest_def exServer_def)
  from r1 r2 r3 h show ?thesis
    unfolding e n by simp
qed


section \<open>The agent registry\<close>

lemma addIdle_Inr:
  "addIdleAgentConn s ac = Inr (s', sig) \<Longrightarrow> agentConns s' = insert ac (agentConns s)"
  by (auto simp: addIdleAgentConn_def split: option.splits)

lemma take_cases:
  "takeAgentConnOne s n (r, s') \<Longrightarrow>
   (\<exists>ac. r = Some ac \<and> ac \<in> agentConns s \<and> ac_node ac = n \<and> agentConns s' = agentConns s - {ac}) \<or>
   (r = None \<and> s' = s \<and> (\<forall>ac \<in> agentConns s. ac_node ac \<noteq> n))"
  by (erule takeAgentConnOne.cases) auto

lemma agent_run_inv:
  "agent_run s evs s' \<Longrightarrow> distinct (added evs) \<Longrightarrow> set (added evs) \<inter> agentConns s = {} \<Longrightarrow>
   distinct (taken evs) \<and> set (taken evs) \<subseteq> agentConns s \<union> set (added evs) \<and>
   agentConns s' = (agentConns s \<union> set (added evs)) - set (taken evs)"
proof (induction rule: agent_run.induct)
  case (run_nil s)
  show ?case by simp
next
  case (run_add s ac s' sig evs s'')
  from addIdle_Inr [OF run_add.hyps(1)] have s': "agentConns s' = insert ac (agentConns s)" .
  from run_add.prems have "distinct (added evs)" "set (added evs) \<inter> agentConns s' = {}"
    by (auto simp: s')
  from run_add.IH [OF this] show ?case by (auto simp: s')
next
  case (run_take s n r s' evs s'')
  from take_cases [OF run_take.hyps(1)] show ?case
  proof
    assume "\<exists>ac. r = Some ac \<and> ac \<in> agentConns s \<and> ac_node ac = n \<and> agentConns s' = agentConns s - {ac}"
    then obtain ac where ac: "r = Some ac" "ac \<in> agentConns s" "agentConns s' = agentConns s - {ac}"
      by blast
    from run_take.prems have p: "distinct (added evs)" "set (added evs) \<inter> agentConns s' = {}"
      by (auto simp: ac)
    from run_take.prems ac have notadded: "ac \<notin> set (added evs)" by (auto simp: ac)
    from run_take.IH [OF p] notadded show ?case by (auto simp: ac)
  next
    assume "r = None \<and> s' = s \<and> (\<forall>ac \<in> agentConns s. ac_node ac \<noteq> n)"
    with run_take.IH run_take.prems show ?case by auto
  qed
qed

text \<open>
  C10: in every history of the registry in which each agent connection is added at most
  once and was not pending before, no connection is returned by two calls of
  \<open>takeAgentConnOne\<close>, a call for a node returns a connection of that node, and the
  pending set at the end holds exactly the connections that were pending or added and
  have not been taken: a connection is removed when it is returned, and one not yet taken
  remains in the set.
\<close>

theorem agent_conn_taken_once:
  assumes "agent_run s evs s'" and "distinct (added evs)" and "set (added evs) \<inter> agentConns s = {}"
  shows "distinct (taken evs) \<and>
         agentConns s' = (agentConns s \<union> set (added evs)) - set (taken evs) \<and>
         (\<forall>n ac. Took n (Some ac) \<in> set evs \<longrightarrow> ac_node ac = n)"
proof -
  have "agent_run s evs s' \<Longrightarrow> \<forall>n ac. Took n (Some ac) \<in> set evs \<longrightarrow> ac_node ac = n"
    by (induction rule: agent_run.induct) (auto dest: take_cases)
  with agent_run_inv [OF assms] assms(1) show ?thesis by blast
qed

lemma run_takeI:
  "ac \<in> agentConns s \<Longrightarrow> ac_node ac = n \<Longrightarrow>
   agent_run (s\<lparr> agentConns := agentConns s - {ac} \<rparr>) evs s'' \<Longrightarrow>
   agent_run s (Took n (Some ac) # evs) s''"
  by (rule run_take [OF takeAgentConnOne.take])

lemma run_noneI:
  "\<forall>ac \<in> agentConns s. ac_node ac \<noteq> n \<Longrightarrow> agent_run s evs s'' \<Longrightarrow>
   agent_run s (Took n None # evs) s''"
  by (rule run_take [OF takeAgentConnOne.none])

lemma run_addI:
  "ac_node ac = Some nd \<Longrightarrow> agent_run (s\<lparr> agentConns := insert ac (agentConns s) \<rparr>) evs s'' \<Longrightarrow>
   agent_run s (Added ac # evs) s''"
  by (rule run_add [where sig = "agentConnWaiter s nd"]) (simp_all add: addIdleAgentConn_def)

lemma run_nilI: "s = s' \<Longrightarrow> agent_run s [] s'"
  by (simp add: run_nil)

lemma ex_run: "agent_run (exAgents {}) exAgentHistory (exAgents {})"
  unfolding exAgentHistory_def
  apply (rule run_addI [where nd = exNode0], simp add: exAgentConn_def)
  apply (rule run_addI [where nd = exNode0], simp add: exAgentConn_def)
  apply (rule run_takeI, simp add: exAgents_def, simp add: exAgentConn_def)
  apply (rule run_takeI, simp add: exAgents_def exAgentConn_def, simp add: exAgentConn_def)
  apply (rule run_noneI, simp add: exAgents_def exAgentConn_def)
  apply (rule run_nilI, simp add: exAgents_def exAgentConn_def)
  done

theorem agent_conn_taken_once_witness:
  "agent_run (exAgents {}) exAgentHistory (exAgents {}) \<and>
   distinct (added exAgentHistory) \<and>
   set (added exAgentHistory) \<inter> agentConns (exAgents {}) = {} \<and>
   taken exAgentHistory = [exAgentConn 2, exAgentConn 1] \<and>
   distinct (taken exAgentHistory) \<and>
   agentConns (exAgents {}) = (agentConns (exAgents {}) \<union> set (added exAgentHistory)) - set (taken exAgentHistory)"
proof -
  have d: "distinct (added exAgentHistory)" "set (added exAgentHistory) \<inter> agentConns (exAgents {}) = {}"
    "taken exAgentHistory = [exAgentConn 2, exAgentConn 1]"
    by (simp_all add: exAgentHistory_def exAgentConn_def exAgents_def)
  from agent_conn_taken_once [OF ex_run d(1,2)] ex_run d show ?thesis by blast
qed


end
